theory Spec2Isabelle
  imports Complex_Main "HOL-Library.AList"
begin

section \<open>JavaScript values as the module sees them\<close>

text \<open>
  The module \<^verbatim>\<open>yahoofinance.mjs\<close> reads the result of \<^verbatim>\<open>JSON.parse\<close> as untyped
  data and builds plain objects from it. Values are therefore modelled untyped.

  A Number is an IEEE 754 binary64 value: \<open>Fin q\<close> is the finite double whose exact value
  is the rational \<open>q\<close> (\<open>Fin 0\<close> is \<open>+0\<close>), \<open>NegZero\<close> is \<open>-0\<close>.
  An object is an association list in property order, each key once (a lookup takes the
  first entry of a key); an array is a list. \<open>DateV t\<close> is a Date object with time
  value \<open>t\<close>. Texts are ASCII, so a character is one code unit.
\<close>

datatype jsnum = Fin rat | NegZero | NaN | PosInf | NegInf

datatype jsval =
    Undefined
  | Null
  | Bool bool
  | Num jsnum
  | Str string
  | Arr "jsval list"
  | Obj "(string \<times> jsval) list"
  | DateV jsnum

datatype error = Error string | TypeError | RangeError | SyntaxError

text \<open>A thrown exception (or a rejected promise) is \<open>Inl\<close>; \<open>andThen\<close> sequences two steps.\<close>

definition andThen :: "error + 'a \<Rightarrow> ('a \<Rightarrow> error + 'b) \<Rightarrow> error + 'b" where
  "andThen m f = (case m of Inl e \<Rightarrow> Inl e | Inr x \<Rightarrow> f x)"

text \<open>
  What the module calls but does not define is a parameter of the model:
  the fetch collaborator imported from \<^verbatim>\<open>httprequest.mjs\<close>, \<^verbatim>\<open>JSON.parse\<close>, and the
  two standard conversions the module never needs on well-typed provider data:
  ToNumber of a string, array or object, and ToString of a number, array, object or Date.
  Every theorem below holds for all such parameters. The three resolvers take their
  string arguments as strings, as their documentation types them.
\<close>

record runtime =
  httpRequestP :: "string \<Rightarrow> error + string"
  JSON_parse :: "string \<Rightarrow> error + jsval"
  ToNumber_ext :: "jsval \<Rightarrow> error + jsnum"
  ToString_ext :: "jsval \<Rightarrow> error + string"

text \<open>ToBoolean: the test of \<^verbatim>\<open>x ? a : b\<close>, \<^verbatim>\<open>if (x)\<close> and \<^verbatim>\<open>x || y\<close>.\<close>

fun truthy :: "jsval \<Rightarrow> bool" where
  "truthy Undefined = False"
| "truthy Null = False"
| "truthy (Bool b) = b"
| "truthy (Num n) = (n \<noteq> Fin 0 \<and> n \<noteq> NegZero \<and> n \<noteq> NaN)"
| "truthy (Str s) = (s \<noteq> [])"
| "truthy (Arr xs) = True"
| "truthy (Obj ps) = True"
| "truthy (DateV t) = True"

text \<open>\<^verbatim>\<open>typeof x === "number"\<close>\<close>

fun is_number :: "jsval \<Rightarrow> bool" where
  "is_number (Num n) = True"
| "is_number v = False"

text \<open>
  \<^verbatim>\<open>v.k\<close> for the data properties the module reads (none of them is a property of a
  built-in prototype): a TypeError on \<^verbatim>\<open>undefined\<close> and \<^verbatim>\<open>null\<close>, the own property of
  an object, \<^verbatim>\<open>length\<close> of an array or string, \<^verbatim>\<open>undefined\<close> otherwise.
\<close>

fun get_prop :: "jsval \<Rightarrow> string \<Rightarrow> error + jsval" where
  "get_prop Undefined k = Inl TypeError"
| "get_prop Null k = Inl TypeError"
| "get_prop (Obj ps) k = Inr (case map_of ps k of None \<Rightarrow> Undefined | Some v \<Rightarrow> v)"
| "get_prop (Arr xs) k = Inr (if k = ''length'' then Num (Fin (of_nat (length xs))) else Undefined)"
| "get_prop (Str s) k = Inr (if k = ''length'' then Num (Fin (of_nat (length s))) else Undefined)"
| "get_prop v k = Inr Undefined"

section \<open>Number arithmetic (IEEE 754 binary64, round to nearest, ties to even)\<close>

fun bit_length :: "nat \<Rightarrow> nat" where
  "bit_length n = (if n = 0 then 0 else Suc (bit_length (n div 2)))"

declare bit_length.simps [simp del]

definition pow2 :: "int \<Rightarrow> rat" where
  "pow2 e = (if 0 \<le> e then 2 ^ nat e else 1 / 2 ^ nat (- e))"

text \<open>
  \<open>floor_log2 a\<close> is the exponent \<open>k\<close> with \<open>2^k \<le> a < 2^(k+1)\<close>, for \<open>a > 0\<close>: one less
  than the bit length of the integer part, or for \<open>a < 1\<close> the negated bit length of the
  integer just below \<open>1 / a\<close>.
\<close>

definition floor_log2 :: "rat \<Rightarrow> int" where
  "floor_log2 a =
     (if 1 \<le> a then int (bit_length (nat \<lfloor>a\<rfloor>)) - 1
      else - int (bit_length (nat (\<lceil>1 / a\<rceil> - 1))))"

definition round_even :: "rat \<Rightarrow> int" where
  "round_even x =
     (let f = \<lfloor>x\<rfloor>; r = x - of_int f
      in if r < 1 / 2 then f
         else if 1 / 2 < r then f + 1
         else if even f then f else f + 1)"

text \<open>
  The double nearest to a magnitude \<open>a \<ge> 0\<close>: 53 significant bits, the least exponent
  \<open>-1074\<close> (subnormal numbers); \<open>None\<close> when the rounded value overflows.
\<close>

definition round_mag :: "rat \<Rightarrow> rat option" where
  "round_mag a =
     (if a = 0 then Some 0
      else let e = max (floor_log2 a - 52) (- 1074);
               v = of_int (round_even (a / pow2 e)) * pow2 e
           in if pow2 1024 \<le> v then None else Some v)"

definition signed :: "bool \<Rightarrow> rat \<Rightarrow> jsnum" where
  "signed neg a =
     (case round_mag a of
        None \<Rightarrow> (if neg then NegInf else PosInf)
      | Some v \<Rightarrow> if v = 0 then (if neg then NegZero else Fin 0)
                  else Fin (if neg then - v else v))"

fun is_neg :: "jsnum \<Rightarrow> bool" where
  "is_neg (Fin q) = (q < 0)"
| "is_neg NegZero = True"
| "is_neg NegInf = True"
| "is_neg PosInf = False"
| "is_neg NaN = False"

fun is_inf :: "jsnum \<Rightarrow> bool" where
  "is_inf PosInf = True"
| "is_inf NegInf = True"
| "is_inf x = False"

fun num_val :: "jsnum \<Rightarrow> rat" where
  "num_val (Fin q) = q"
| "num_val x = 0"

definition is_zero :: "jsnum \<Rightarrow> bool" where
  "is_zero x = (x = Fin 0 \<or> x = NegZero)"

definition js_mul :: "jsnum \<Rightarrow> jsnum \<Rightarrow> jsnum" where
  "js_mul x y =
     (if x = NaN \<or> y = NaN then NaN
      else if is_inf x \<or> is_inf y
      then (if is_zero x \<or> is_zero y then NaN
            else if is_neg x \<noteq> is_neg y then NegInf else PosInf)
      else signed (is_neg x \<noteq> is_neg y) (\<bar>num_val x\<bar> * \<bar>num_val y\<bar>))"

definition js_div :: "jsnum \<Rightarrow> jsnum \<Rightarrow> jsnum" where
  "js_div x y =
     (if x = NaN \<or> y = NaN then NaN
      else if is_inf x then (if is_inf y then NaN
                             else if is_neg x \<noteq> is_neg y then NegInf else PosInf)
      else if is_inf y then (if is_neg x \<noteq> is_neg y then NegZero else Fin 0)
      else if is_zero y then (if is_zero x then NaN
                              else if is_neg x \<noteq> is_neg y then NegInf else PosInf)
      else signed (is_neg x \<noteq> is_neg y) (\<bar>num_val x\<bar> / \<bar>num_val y\<bar>))"

definition js_sub :: "jsnum \<Rightarrow> jsnum \<Rightarrow> jsnum" where
  "js_sub x y =
     (if x = NaN \<or> y = NaN then NaN
      else if is_inf x then (if is_inf y \<and> is_neg x = is_neg y then NaN else x)
      else if is_inf y then (if is_neg y then PosInf else NegInf)
      else let r = num_val x - num_val y
           in if r = 0 then (if x = NegZero \<and> y = Fin 0 then NegZero else Fin 0)
              else signed (r < 0) \<bar>r\<bar>)"

text \<open>ToNumber and ToString, on the primitive values; the rest is the runtime's.\<close>

fun ToNumber :: "runtime \<Rightarrow> jsval \<Rightarrow> error + jsnum" where
  "ToNumber rt Undefined = Inr NaN"
| "ToNumber rt Null = Inr (Fin 0)"
| "ToNumber rt (Bool b) = Inr (Fin (if b then 1 else 0))"
| "ToNumber rt (Num n) = Inr n"
| "ToNumber rt v = ToNumber_ext rt v"

fun ToString :: "runtime \<Rightarrow> jsval \<Rightarrow> error + string" where
  "ToString rt Undefined = Inr ''undefined''"
| "ToString rt Null = Inr ''null''"
| "ToString rt (Bool b) = Inr (if b then ''true'' else ''false'')"
| "ToString rt (Str s) = Inr s"
| "ToString rt v = ToString_ext rt v"

text \<open>The operators \<^verbatim>\<open>a * b\<close>, \<^verbatim>\<open>a / b\<close>, \<^verbatim>\<open>a - b\<close>: both operands to Number, left first.\<close>

definition js_times :: "runtime \<Rightarrow> jsval \<Rightarrow> jsval \<Rightarrow> error + jsval" where
  "js_times rt a b = andThen (ToNumber rt a) (\<lambda>x. andThen (ToNumber rt b) (\<lambda>y. Inr (Num (js_mul x y))))"

definition js_divide :: "runtime \<Rightarrow> jsval \<Rightarrow> jsval \<Rightarrow> error + jsval" where
  "js_divide rt a b = andThen (ToNumber rt a) (\<lambda>x. andThen (ToNumber rt b) (\<lambda>y. Inr (Num (js_div x y))))"

definition js_minus :: "runtime \<Rightarrow> jsval \<Rightarrow> jsval \<Rightarrow> error + jsval" where
  "js_minus rt a b = andThen (ToNumber rt a) (\<lambda>x. andThen (ToNumber rt b) (\<lambda>y. Inr (Num (js_sub x y))))"

section \<open>Decimal text of a Number: \<^verbatim>\<open>Number.prototype.toFixed\<close>\<close>

definition digit_char :: "nat \<Rightarrow> char" where
  "digit_char d = ''0123456789'' ! (d mod 10)"

fun dec_digits :: "nat \<Rightarrow> string" where
  "dec_digits n = (if n < 10 then [digit_char n] else dec_digits (n div 10) @ [digit_char (n mod 10)])"

declare dec_digits.simps [simp del]

text \<open>
  Steps 11 and 12 of \<^verbatim>\<open>toFixed\<close> for a magnitude \<open>x \<ge> 0\<close> below \<open>10^21\<close>: \<open>n\<close> is the
  integer nearest to \<open>x * 10^f\<close> (the larger one of two), written with at least \<open>f + 1\<close>
  digits and a point before the last \<open>f\<close>.
\<close>

definition fixed_digits :: "rat \<Rightarrow> nat \<Rightarrow> string" where
  "fixed_digits x f =
     (let n = nat \<lfloor>x * 10 ^ f + 1 / 2\<rfloor>;
          m = dec_digits n;
          m' = (if f \<noteq> 0 \<and> length m \<le> f then replicate (f + 1 - length m) (CHR ''0'') @ m else m)
      in if f = 0 then m'
         else take (length m' - f) m' @ ''.'' @ drop (length m' - f) m')"

text \<open>ToIntegerOrInfinity of the \<^verbatim>\<open>fractionDigits\<close> argument; \<open>None\<close> is an infinity.\<close>

fun ToIntegerOrInfinity :: "jsnum \<Rightarrow> int option" where
  "ToIntegerOrInfinity NaN = Some 0"
| "ToIntegerOrInfinity NegZero = Some 0"
| "ToIntegerOrInfinity PosInf = None"
| "ToIntegerOrInfinity NegInf = None"
| "ToIntegerOrInfinity (Fin q) = Some (if q < 0 then \<lceil>q\<rceil> else \<lfloor>q\<rfloor>)"

text \<open>
  \<^verbatim>\<open>x.toFixed(fd)\<close> on a Number \<open>x\<close>, \<open>fd\<close> already a Number, by the steps of the
  language standard: a RangeError unless the digit count is within 0..100; the text of a
  non-finite \<open>x\<close>; the runtime's ToString for a magnitude from \<open>10^21\<close> on; the
  fixed-point digits otherwise.
\<close>

definition Number_toFixed :: "runtime \<Rightarrow> jsnum \<Rightarrow> jsnum \<Rightarrow> error + string" where
  "Number_toFixed rt x fd =
     (case ToIntegerOrInfinity fd of
        None \<Rightarrow> Inl RangeError
      | Some f \<Rightarrow>
          if f < 0 \<or> f > 100 then Inl RangeError
          else (case x of
                  NaN \<Rightarrow> Inr ''NaN''
                | PosInf \<Rightarrow> Inr ''Infinity''
                | NegInf \<Rightarrow> Inr ''-Infinity''
                | NegZero \<Rightarrow> Inr (fixed_digits 0 (nat f))
                | Fin q \<Rightarrow>
                    if \<bar>q\<bar> \<ge> 10 ^ 21
                    then andThen (ToString_ext rt (Num (Fin \<bar>q\<bar>)))
                           (\<lambda>m. Inr ((if q < 0 then ''-'' else '''') @ m))
                    else Inr ((if q < 0 then ''-'' else '''') @ fixed_digits \<bar>q\<bar> (nat f))))"

section \<open>The shared helper \<^verbatim>\<open>getRawValText\<close>\<close>

definition getRawValText :: "runtime \<Rightarrow> jsval \<Rightarrow> jsval \<Rightarrow> error + jsval" where
  "getRawValText rt val decimals =
     andThen (if truthy val then get_prop val ''raw'' else Inr Null) (\<lambda>result.
       case result of
         Num x \<Rightarrow>
           (case decimals of
              Num d \<Rightarrow> andThen (Number_toFixed rt x d) (\<lambda>s. Inr (Str s))
            | _ \<Rightarrow> Inr (Num x))
       | _ \<Rightarrow> Inr Null)"

section \<open>Arrays, object literals, method calls\<close>

text \<open>
  \<^verbatim>\<open>v[i]\<close>: an element of an array (\<^verbatim>\<open>undefined\<close> out of range), the property named by
  the decimal text of \<open>i\<close> of an object, a character of a string.
\<close>

fun get_index :: "jsval \<Rightarrow> nat \<Rightarrow> error + jsval" where
  "get_index Undefined i = Inl TypeError"
| "get_index Null i = Inl TypeError"
| "get_index (Arr xs) i = Inr (if i < length xs then xs ! i else Undefined)"
| "get_index (Obj ps) i = Inr (case map_of ps (dec_digits i) of None \<Rightarrow> Undefined | Some v \<Rightarrow> v)"
| "get_index (Str s) i = Inr (if i < length s then Str [s ! i] else Undefined)"
| "get_index v i = Inr Undefined"

text \<open>
  An object literal defines its properties from left to right; a key written twice keeps
  its first position and takes the later value.
\<close>

definition obj_lit :: "(string \<times> jsval) list \<Rightarrow> jsval" where
  "obj_lit props = Obj (foldl (\<lambda>ps (k, v). AList.update k v ps) [] props)"

text \<open>\<^verbatim>\<open>xs.map((x, idx) => ...)\<close>: only an array has the method.\<close>

fun map_idx :: "(jsval \<Rightarrow> nat \<Rightarrow> error + jsval) \<Rightarrow> jsval list \<Rightarrow> nat \<Rightarrow> error + jsval list" where
  "map_idx cb [] i = Inr []"
| "map_idx cb (x # xs) i =
     andThen (cb x i) (\<lambda>y. andThen (map_idx cb xs (Suc i)) (\<lambda>ys. Inr (y # ys)))"

fun array_map :: "jsval \<Rightarrow> (jsval \<Rightarrow> nat \<Rightarrow> error + jsval) \<Rightarrow> error + jsval" where
  "array_map (Arr xs) cb = andThen (map_idx cb xs 0) (\<lambda>ys. Inr (Arr ys))"
| "array_map v cb = Inl TypeError"

text \<open>\<^verbatim>\<open>v.toFixed(d)\<close>: only a Number has the method; its argument goes through ToNumber.\<close>

fun call_toFixed :: "runtime \<Rightarrow> jsval \<Rightarrow> jsval \<Rightarrow> error + jsval" where
  "call_toFixed rt (Num x) d =
     andThen (ToNumber rt d) (\<lambda>fd. andThen (Number_toFixed rt x fd) (\<lambda>s. Inr (Str s)))"
| "call_toFixed rt v d = Inl TypeError"

text \<open>\<^verbatim>\<open>new Date(t)\<close> for a Number \<open>t\<close>: the time value is clipped.\<close>

fun TimeClip :: "jsnum \<Rightarrow> jsnum" where
  "TimeClip (Fin q) =
     (if \<bar>q\<bar> > 8640000000000000 then NaN
      else Fin (of_int (if q < 0 then \<lceil>q\<rceil> else \<lfloor>q\<rfloor>)))"
| "TimeClip NegZero = Fin 0"
| "TimeClip x = NaN"

definition new_Date :: "jsval \<Rightarrow> error + jsval" where
  "new_Date v = (case v of Num t \<Rightarrow> Inr (DateV (TimeClip t)) | _ \<Rightarrow> Inl TypeError)"

text \<open>\<^verbatim>\<open>throw new Error(m)\<close>: the message is the text of \<open>m\<close>, empty for \<^verbatim>\<open>undefined\<close>.\<close>

definition throw_new_Error :: "runtime \<Rightarrow> jsval \<Rightarrow> error + 'a" where
  "throw_new_Error rt m =
     (if m = Undefined then Inl (Error [])
      else andThen (ToString rt m) (\<lambda>s. Inl (Error s)))"

section \<open>\<^verbatim>\<open>resolveChart\<close>\<close>

text \<open>The nested literal bound to the second \<^verbatim>\<open>exchange\<close> key.\<close>

definition chart_exchange :: "jsval \<Rightarrow> error + jsval" where
  "chart_exchange meta =
     andThen (get_prop meta ''timezone'') (\<lambda>timezone.
     andThen (get_prop meta ''exchangeTimezoneName'') (\<lambda>timezoneName.
     andThen (get_prop meta ''currentTradingPeriod'') (\<lambda>p1.
     andThen (get_prop p1 ''regular'') (\<lambda>r1.
     andThen (get_prop r1 ''start'') (\<lambda>start.
     andThen (get_prop meta ''currentTradingPeriod'') (\<lambda>p2.
     andThen (get_prop p2 ''regular'') (\<lambda>r2.
     andThen (get_prop r2 ''end'') (\<lambda>end'.
       Inr (obj_lit
         [(''timezone'', timezone),
          (''timezoneName'', timezoneName),
          (''tradingPeriod'', obj_lit [(''start'', start), (''end'', end')])])))))))))"

text \<open>The callback of \<^verbatim>\<open>result.timestamp.map\<close>: one bar per timestamp.\<close>

definition chart_bar :: "runtime \<Rightarrow> jsval \<Rightarrow> jsval \<Rightarrow> nat \<Rightarrow> error + jsval" where
  "chart_bar rt quote timestamp idx =
     andThen (js_times rt timestamp (Num (Fin 1000))) (\<lambda>t.
     andThen (andThen (get_prop quote ''open'') (\<lambda>a. get_index a idx)) (\<lambda>open'.
     andThen (andThen (get_prop quote ''close'') (\<lambda>a. get_index a idx)) (\<lambda>close.
     andThen (andThen (get_prop quote ''high'') (\<lambda>a. get_index a idx)) (\<lambda>high.
     andThen (andThen (get_prop quote ''low'') (\<lambda>a. get_index a idx)) (\<lambda>low.
     andThen (andThen (get_prop quote ''volume'') (\<lambda>a. get_index a idx)) (\<lambda>volume.
       Inr (obj_lit
         [(''timestamp'', t),
          (''open'', open'),
          (''close'', close),
          (''high'', high),
          (''low'', low),
          (''volume'', volume)])))))))"

text \<open>
  The returned literal, its property values computed in source order. The key
  \<^verbatim>\<open>exchange\<close> is written twice.
\<close>

definition chart_record :: "runtime \<Rightarrow> jsval \<Rightarrow> jsval \<Rightarrow> jsval \<Rightarrow> error + jsval" where
  "chart_record rt result meta quote =
     andThen (get_prop meta ''symbol'') (\<lambda>symbol.
     andThen (get_prop meta ''currency'') (\<lambda>currency.
     andThen (get_prop meta ''instrumentType'') (\<lambda>instrument.
     andThen (get_prop meta ''exchangeName'') (\<lambda>exchangeName.
     andThen (get_prop meta ''regularMarketPrice'') (\<lambda>currentPrice.
     andThen (get_prop meta ''previousClose'') (\<lambda>previousClose.
     andThen (js_minus rt currentPrice previousClose) (\<lambda>priceChange.
     andThen (js_minus rt currentPrice previousClose) (\<lambda>diff.
     andThen (js_divide rt diff previousClose) (\<lambda>ratio.
     andThen (js_times rt ratio (Num (Fin 100))) (\<lambda>percent.
     andThen (call_toFixed rt percent (Num (Fin 2))) (\<lambda>priceChangePercentage.
     andThen (get_prop meta ''regularMarketTime'') (\<lambda>time.
     andThen (js_times rt time (Num (Fin 1000))) (\<lambda>ms.
     andThen (new_Date ms) (\<lambda>updatedDateTime.
     andThen (chart_exchange meta) (\<lambda>exchange.
     andThen (get_prop result ''timestamp'') (\<lambda>timestamps.
     andThen (array_map timestamps (chart_bar rt quote)) (\<lambda>timeseries.
       Inr (obj_lit
         [(''symbol'', symbol),
          (''currency'', currency),
          (''instrument'', instrument),
          (''exchange'', exchangeName),
          (''currentPrice'', currentPrice),
          (''previousClose'', previousClose),
          (''priceChange'', priceChange),
          (''priceChangePercentage'', priceChangePercentage),
          (''updatedDateTime'', updatedDateTime),
          (''exchange'', exchange),
          (''timeseries'', timeseries)]))))))))))))))))))"

text \<open>
  The body of the \<^verbatim>\<open>then\<close> callback after \<^verbatim>\<open>JSON.parse\<close>. Console output is not part of
  the model; the property reads made for it are (\<^verbatim>\<open>result.timestamp.length\<close>).
\<close>

definition chart_of_response :: "runtime \<Rightarrow> jsval \<Rightarrow> error + jsval" where
  "chart_of_response rt resp =
     andThen (get_prop resp ''chart'') (\<lambda>chart.
     andThen (get_prop chart ''error'') (\<lambda>err.
       if truthy err
       then andThen (get_prop err ''description'') (throw_new_Error rt)
       else
         andThen (get_prop chart ''result'') (\<lambda>results.
         andThen (get_index results 0) (\<lambda>result.
         andThen (get_prop result ''meta'') (\<lambda>meta.
         andThen (get_prop result ''indicators'') (\<lambda>indicators.
         andThen (get_prop indicators ''quote'') (\<lambda>quotes.
         andThen (get_index quotes 0) (\<lambda>quote.
         andThen (get_prop result ''timestamp'') (\<lambda>timestamps.
         andThen (get_prop timestamps ''length'') (\<lambda>n.
           chart_record rt result meta quote))))))))))"

text \<open>The request URL (a template literal over the three string arguments).\<close>

definition chart_url :: "string \<Rightarrow> string \<Rightarrow> string \<Rightarrow> string" where
  "chart_url symbol range' interval =
     ''https://query1.finance.yahoo.com/v8/finance/chart/'' @ symbol @ ''?symbol='' @ symbol
       @ ''&range='' @ range' @ ''&interval='' @ interval"

definition resolveChart :: "runtime \<Rightarrow> string \<Rightarrow> string \<Rightarrow> string \<Rightarrow> error + jsval" where
  "resolveChart rt symbol range' interval =
     andThen (httpRequestP rt (chart_url symbol range' interval)) (\<lambda>text.
     andThen (JSON_parse rt text) (chart_of_response rt))"

section \<open>\<^verbatim>\<open>resolveQuote\<close>\<close>

text \<open>\<^verbatim>\<open>o.priceHint ? o.priceHint.raw : 2\<close>, the resolved precision of both summary resolvers.\<close>

definition priceHint_decimals :: "jsval \<Rightarrow> error + jsval" where
  "priceHint_decimals obj =
     andThen (get_prop obj ''priceHint'') (\<lambda>hint.
       if truthy hint then get_prop hint ''raw'' else Inr (Num (Fin 2)))"

text \<open>\<^verbatim>\<open>o.guard ? o.field.raw.toFixed(decimals) : null\<close>\<close>

definition fixed_or_null :: "runtime \<Rightarrow> jsval \<Rightarrow> string \<Rightarrow> string \<Rightarrow> jsval \<Rightarrow> error + jsval" where
  "fixed_or_null rt obj guard field decimals =
     andThen (get_prop obj guard) (\<lambda>g.
       if truthy g
       then andThen (get_prop obj field) (\<lambda>v.
            andThen (get_prop v ''raw'') (\<lambda>raw. call_toFixed rt raw decimals))
       else Inr Null)"

text \<open>\<^verbatim>\<open>o.field ? o.field.raw : null\<close>\<close>

definition raw_or_null :: "jsval \<Rightarrow> string \<Rightarrow> error + jsval" where
  "raw_or_null obj field =
     andThen (get_prop obj field) (\<lambda>g.
       if truthy g then get_prop g ''raw'' else Inr Null)"

text \<open>\<^verbatim>\<open>o.field ? (o.field.raw * 100).toFixed(2) : null\<close>\<close>

definition percent_or_null :: "runtime \<Rightarrow> jsval \<Rightarrow> string \<Rightarrow> error + jsval" where
  "percent_or_null rt obj field =
     andThen (get_prop obj field) (\<lambda>g.
       if truthy g
       then andThen (get_prop g ''raw'') (\<lambda>raw.
            andThen (js_times rt raw (Num (Fin 100))) (\<lambda>p. call_toFixed rt p (Num (Fin 2))))
       else Inr Null)"

definition quote_record :: "runtime \<Rightarrow> jsval \<Rightarrow> jsval \<Rightarrow> error + jsval" where
  "quote_record rt priceResult decimals =
     andThen (get_prop priceResult ''symbol'') (\<lambda>symbol.
     andThen (get_prop priceResult ''currency'') (\<lambda>currency.
     andThen (get_prop priceResult ''shortName'') (\<lambda>shortName.
     andThen (andThen (get_prop priceResult ''longName'') (\<lambda>l.
                if truthy l then Inr l else get_prop priceResult ''shortName'')) (\<lambda>longName.
     andThen (get_prop priceResult ''quoteType'') (\<lambda>instrument.
     andThen (get_prop priceResult ''exchange'') (\<lambda>exchange.
     andThen (andThen (get_prop priceResult ''exchangeName'') (\<lambda>n.
                if truthy n then get_prop priceResult ''exchangeName'' else Inr Null)) (\<lambda>exchangeName.
     andThen (fixed_or_null rt priceResult ''regularMarketPrice'' ''regularMarketPrice'' decimals) (\<lambda>currentPrice.
     andThen (fixed_or_null rt priceResult ''regularMarketDayHigh'' ''regularMarketDayHigh'' decimals) (\<lambda>dayHighPrice.
     andThen (fixed_or_null rt priceResult ''regularMarketDayHigh'' ''regularMarketDayLow'' decimals) (\<lambda>dayLowPrice.
     andThen (fixed_or_null rt priceResult ''regularMarketOpen'' ''regularMarketOpen'' decimals) (\<lambda>openPrice.
     andThen (raw_or_null priceResult ''regularMarketVolume'') (\<lambda>volume.
     andThen (get_prop priceResult ''regularMarketTime'') (\<lambda>time.
     andThen (js_times rt time (Num (Fin 1000))) (\<lambda>ms.
     andThen (new_Date ms) (\<lambda>updatedDateTime.
     andThen (fixed_or_null rt priceResult ''regularMarketChange'' ''regularMarketChange'' decimals) (\<lambda>priceChange.
     andThen (percent_or_null rt priceResult ''regularMarketChangePercent'') (\<lambda>priceChangePercentage.
     andThen (fixed_or_null rt priceResult ''regularMarketPreviousClose'' ''regularMarketPreviousClose'' decimals) (\<lambda>previousClose.
     andThen (raw_or_null priceResult ''marketCap'') (\<lambda>marketCap.
       Inr (obj_lit
         [(''symbol'', symbol),
          (''currency'', currency),
          (''shortName'', shortName),
          (''longName'', longName),
          (''instrument'', instrument),
          (''exchange'', exchange),
          (''exchangeName'', exchangeName),
          (''currentPrice'', currentPrice),
          (''dayHighPrice'', dayHighPrice),
          (''dayLowPrice'', dayLowPrice),
          (''openPrice'', openPrice),
          (''volume'', volume),
          (''updatedDateTime'', updatedDateTime),
          (''priceChange'', priceChange),
          (''priceChangePercentage'', priceChangePercentage),
          (''priceDecimals'', decimals),
          (''previousClose'', previousClose),
          (''marketCap'', marketCap)]))))))))))))))))))))"

definition quote_of_response :: "runtime \<Rightarrow> jsval \<Rightarrow> error + jsval" where
  "quote_of_response rt resp =
     andThen (get_prop resp ''quoteSummary'') (\<lambda>summary.
     andThen (get_prop summary ''error'') (\<lambda>err.
       if truthy err
       then andThen (get_prop err ''description'') (throw_new_Error rt)
       else
         andThen (get_prop summary ''result'') (\<lambda>results.
         andThen (get_index results 0) (\<lambda>result.
         andThen (get_prop result ''price'') (\<lambda>priceResult.
         andThen (priceHint_decimals priceResult) (\<lambda>decimals.
           quote_record rt priceResult decimals))))))"

definition quote_url :: "string \<Rightarrow> string" where
  "quote_url symbol =
     ''https://query1.finance.yahoo.com/v10/finance/quoteSummary/'' @ symbol @ ''?modules=price''"

definition resolveQuote :: "runtime \<Rightarrow> string \<Rightarrow> error + jsval" where
  "resolveQuote rt symbol =
     andThen (httpRequestP rt (quote_url symbol)) (\<lambda>text.
     andThen (JSON_parse rt text) (quote_of_response rt))"

section \<open>\<^verbatim>\<open>resolveProfile\<close>\<close>

definition summaryDetail_record :: "runtime \<Rightarrow> jsval \<Rightarrow> jsval \<Rightarrow> error + jsval" where
  "summaryDetail_record rt detailResult decimals =
     andThen (get_prop detailResult ''currency'') (\<lambda>currency.
     andThen (andThen (get_prop detailResult ''beta'') (\<lambda>v. getRawValText rt v decimals)) (\<lambda>beta.
     andThen (andThen (get_prop detailResult ''fiftyTwoWeekLow'') (\<lambda>v. getRawValText rt v decimals)) (\<lambda>fiftyTwoWeekLow.
     andThen (andThen (get_prop detailResult ''fiftyTwoWeekHigh'') (\<lambda>v. getRawValText rt v decimals)) (\<lambda>fiftyTwoWeekHigh.
     andThen (andThen (get_prop detailResult ''fiftyDayAverage'') (\<lambda>v. getRawValText rt v decimals)) (\<lambda>fiftyDayAverage.
     andThen (andThen (get_prop detailResult ''twoHundredDayAverage'') (\<lambda>v. getRawValText rt v decimals)) (\<lambda>twoHundredDayAverage.
     andThen (andThen (get_prop detailResult ''dividendRate'') (\<lambda>v. getRawValText rt v decimals)) (\<lambda>rate.
     andThen (percent_or_null rt detailResult ''dividendYield'') (\<lambda>yield.
     andThen (andThen (get_prop detailResult ''exDividendDate'') (\<lambda>d.
                if truthy d then get_prop d ''fmt'' else Inr Null)) (\<lambda>exDate.
     andThen (andThen (get_prop detailResult ''trailingAnnualDividendRate'') (\<lambda>v. getRawValText rt v decimals)) (\<lambda>trailingAnnualRate.
     andThen (percent_or_null rt detailResult ''trailingAnnualDividendYield'') (\<lambda>trailingAnnualYield.
       Inr (obj_lit
         [(''currency'', currency),
          (''priceHistory'', obj_lit
             [(''beta'', beta),
              (''fiftyTwoWeekLow'', fiftyTwoWeekLow),
              (''fiftyTwoWeekHigh'', fiftyTwoWeekHigh),
              (''fiftyDayAverage'', fiftyDayAverage),
              (''twoHundredDayAverage'', twoHundredDayAverage)]),
          (''dividend'', obj_lit
             [(''rate'', rate),
              (''yield'', yield),
              (''exDate'', exDate),
              (''trailingAnnualRate'', trailingAnnualRate),
              (''trailingAnnualYield'', trailingAnnualYield)])]))))))))))))"

text \<open>
  The non-index branch. \<^verbatim>\<open>address2\<close> is the provider's second line followed by
  \<^verbatim>\<open>", "\<close>, or the empty string; the template literal takes the text of each part in turn.
\<close>

definition summaryProfile_record :: "runtime \<Rightarrow> jsval \<Rightarrow> error + jsval" where
  "summaryProfile_record rt profileResult =
     andThen (andThen (get_prop profileResult ''address2'') (\<lambda>a.
                if truthy a
                then andThen (get_prop profileResult ''address2'') (\<lambda>a'.
                     andThen (ToString rt a') (\<lambda>s. Inr (s @ '', '')))
                else Inr [])) (\<lambda>address2.
     andThen (andThen (get_prop profileResult ''address1'') (ToString rt)) (\<lambda>address1.
     andThen (andThen (get_prop profileResult ''city'') (ToString rt)) (\<lambda>city.
     andThen (andThen (get_prop profileResult ''zip'') (ToString rt)) (\<lambda>zip.
     andThen (andThen (get_prop profileResult ''country'') (ToString rt)) (\<lambda>country.
     andThen (get_prop profileResult ''phone'') (\<lambda>phone.
     andThen (get_prop profileResult ''website'') (\<lambda>website.
     andThen (get_prop profileResult ''industry'') (\<lambda>industry.
     andThen (get_prop profileResult ''sector'') (\<lambda>sector.
     andThen (get_prop profileResult ''longBusinessSummary'') (\<lambda>description.
     andThen (get_prop profileResult ''fullTimeEmployees'') (\<lambda>fullTimeEmployees.
       Inr (obj_lit
         [(''address'', Str (address1 @ '', '' @ address2 @ city @ '' '' @ zip @ '', '' @ country)),
          (''phone'', phone),
          (''website'', website),
          (''industry'', industry),
          (''sector'', sector),
          (''description'', description),
          (''fullTimeEmployees'', fullTimeEmployees)]))))))))))))"

definition profile_of_response :: "runtime \<Rightarrow> bool \<Rightarrow> jsval \<Rightarrow> error + jsval" where
  "profile_of_response rt isIndex resp =
     andThen (get_prop resp ''quoteSummary'') (\<lambda>summary.
     andThen (get_prop summary ''error'') (\<lambda>err.
       if truthy err
       then andThen (get_prop err ''description'') (throw_new_Error rt)
       else
         andThen (get_prop summary ''result'') (\<lambda>results.
         andThen (get_index results 0) (\<lambda>result.
         andThen (get_prop result ''summaryDetail'') (\<lambda>detailResult.
         andThen (priceHint_decimals detailResult) (\<lambda>decimals.
         andThen (summaryDetail_record rt detailResult decimals) (\<lambda>summaryDetail.
         andThen (if isIndex
                  then andThen (get_prop result ''components'') (\<lambda>c.
                       andThen (get_prop c ''components'') (\<lambda>components.
                         Inr (Null, components)))
                  else andThen (get_prop result ''summaryProfile'') (\<lambda>profileResult.
                       andThen (summaryProfile_record rt profileResult) (\<lambda>summaryProfile.
                         Inr (summaryProfile, Null)))) (\<lambda>(summaryProfile, components).
           Inr (obj_lit
             [(''summaryProfile'', summaryProfile),
              (''summaryDetail'', summaryDetail),
              (''components'', components)])))))))))"

text \<open>\<^verbatim>\<open>symbol.startsWith("^")\<close>\<close>

definition startsWith_caret :: "string \<Rightarrow> bool" where
  "startsWith_caret symbol = (case symbol of [] \<Rightarrow> False | c # cs \<Rightarrow> c = CHR ''^'')"

definition profile_modules :: "bool \<Rightarrow> string" where
  "profile_modules isIndex =
     (if isIndex then ''summaryDetail%2Ccomponents'' else ''summaryProfile%2CsummaryDetail'')"

definition profile_url :: "string \<Rightarrow> string \<Rightarrow> string" where
  "profile_url symbol modules =
     ''https://query1.finance.yahoo.com/v10/finance/quoteSummary/'' @ symbol @ ''?modules='' @ modules"

definition resolveProfile :: "runtime \<Rightarrow> string \<Rightarrow> error + jsval" where
  "resolveProfile rt symbol =
     (let isIndex = startsWith_caret symbol;
          modules = profile_modules isIndex
      in andThen (httpRequestP rt (profile_url symbol modules)) (\<lambda>text.
         andThen (JSON_parse rt text) (profile_of_response rt isIndex)))"

section \<open>Vocabulary of the properties\<close>

text \<open>
  A text has \<open>p\<close> decimals when exactly \<open>p\<close> characters, all of them digits, follow its
  decimal point; with \<open>p = 0\<close> it has no point.
\<close>

definition is_digit :: "char \<Rightarrow> bool" where
  "is_digit c = (c \<in> set ''0123456789'')"

fun after_point :: "string \<Rightarrow> string option" where
  "after_point [] = None"
| "after_point (c # cs) = (if c = CHR ''.'' then Some cs else after_point cs)"

definition has_decimals :: "string \<Rightarrow> nat \<Rightarrow> bool" where
  "has_decimals s p =
     (case after_point s of
        None \<Rightarrow> p = 0
      | Some b \<Rightarrow> p \<noteq> 0 \<and> length b = p \<and> list_all is_digit b)"

text \<open>The number a signed decimal text denotes.\<close>

definition digit_val :: "char \<Rightarrow> nat" where
  "digit_val c = of_char c - 48"

definition digits_value :: "string \<Rightarrow> nat" where
  "digits_value s = foldl (\<lambda>a c. 10 * a + digit_val c) 0 s"

definition text_value :: "string \<Rightarrow> rat" where
  "text_value s =
     (let neg = (s \<noteq> [] \<and> hd s = CHR ''-'');
          body = (if neg then tl s else s);
          p = (case after_point body of None \<Rightarrow> 0 | Some b \<Rightarrow> length b)
      in (if neg then - 1 else 1) * of_nat (digits_value (filter (\<lambda>c. c \<noteq> CHR ''.'') body)) / 10 ^ p)"

text \<open>The parsed response to a request, and the payload \<^verbatim>\<open>resp[kind].result[0]\<close>.\<close>

definition fetched :: "runtime \<Rightarrow> string \<Rightarrow> error + jsval" where
  "fetched rt url = andThen (httpRequestP rt url) (JSON_parse rt)"

definition payload :: "jsval \<Rightarrow> string \<Rightarrow> error + jsval" where
  "payload resp kind =
     andThen (get_prop resp kind) (\<lambda>c.
     andThen (get_prop c ''result'') (\<lambda>results. get_index results 0))"

text \<open>The provider's error envelope \<^verbatim>\<open>resp[kind].error\<close>.\<close>

definition envelope_error :: "jsval \<Rightarrow> string \<Rightarrow> error + jsval" where
  "envelope_error resp kind = andThen (get_prop resp kind) (\<lambda>c. get_prop c ''error'')"

text \<open>
  A runtime for worked examples: every request is answered by the text \<open>body\<close>, which
  parses to \<open>resp\<close>. The examples use no conversion beyond the primitive cases.
\<close>

definition canned :: "string \<Rightarrow> jsval \<Rightarrow> runtime" where
  "canned body resp =
     \<lparr> httpRequestP = (\<lambda>url. Inr body),
       JSON_parse = (\<lambda>text. if text = body then Inr resp else Inl SyntaxError),
       ToNumber_ext = (\<lambda>v. Inr NaN),
       ToString_ext = (\<lambda>v. Inr []) \<rparr>"

text \<open>The record of parallel series \<^verbatim>\<open>result.indicators.quote[0]\<close> of a chart payload.\<close>

definition chart_series :: "jsval \<Rightarrow> error + jsval" where
  "chart_series result =
     andThen (get_prop result ''indicators'') (\<lambda>indicators.
     andThen (get_prop indicators ''quote'') (\<lambda>quotes. get_index quotes 0))"

text \<open>The five series a bar reads.\<close>

definition series_keys :: "string list" where
  "series_keys = [''open'', ''high'', ''low'', ''close'', ''volume'']"

section \<open>Worked examples\<close>

text \<open>A chart response with three timestamps whose \<^verbatim>\<open>open\<close> series holds a \<^verbatim>\<open>null\<close> and lacks its last entry, and the record the resolver returns for it.\<close>

definition example_meta :: jsval where
  "example_meta =
     Obj [(''currency'', Str ''USD''),
          (''symbol'', Str ''AAPL''),
          (''exchangeName'', Str ''NMS''),
          (''instrumentType'', Str ''EQUITY''),
          (''regularMarketTime'', Num (Fin 1600000000)),
          (''timezone'', Str ''EDT''),
          (''exchangeTimezoneName'', Str ''America/New_York''),
          (''regularMarketPrice'', Num (Fin 105)),
          (''previousClose'', Num (Fin 100)),
          (''currentTradingPeriod'', Obj
             [(''regular'', Obj [(''start'', Num (Fin 1599999000)), (''end'', Num (Fin 1600022400))])])]"

definition example_series :: jsval where
  "example_series =
     Obj [(''open'', Arr [Num (Fin 104), Null]),
          (''high'', Arr [Num (Fin 106), Num (Fin 106), Num (Fin 107)]),
          (''low'', Arr [Num (Fin 103), Num (Fin 104), Num (Fin 104)]),
          (''close'', Arr [Num (Fin 105), Num (Fin 105), Num (Fin 105)]),
          (''volume'', Arr [Num (Fin 1000), Num (Fin 2000), Num (Fin 1500)])]"

definition example_chart_result :: jsval where
  "example_chart_result =
     Obj [(''meta'', example_meta),
          (''timestamp'', Arr [Num (Fin 1599999000), Num (Fin 1599999300), Num (Fin 1599999600)]),
          (''indicators'', Obj [(''quote'', Arr [example_series])])]"

definition example_chart :: jsval where
  "example_chart =
     Obj [(''chart'', Obj [(''result'', Arr [example_chart_result]), (''error'', Null)])]"

definition example_chart_record :: jsval where
  "example_chart_record =
     Obj [(''symbol'', Str ''AAPL''),
          (''currency'', Str ''USD''),
          (''instrument'', Str ''EQUITY''),
          (''exchange'', Obj
             [(''timezone'', Str ''EDT''),
              (''timezoneName'', Str ''America/New_York''),
              (''tradingPeriod'', Obj [(''start'', Num (Fin 1599999000)), (''end'', Num (Fin 1600022400))])]),
          (''currentPrice'', Num (Fin 105)),
          (''previousClose'', Num (Fin 100)),
          (''priceChange'', Num (Fin 5)),
          (''priceChangePercentage'', Str ''5.00''),
          (''updatedDateTime'', DateV (Fin 1600000000000)),
          (''timeseries'', Arr
             [Obj [(''timestamp'', Num (Fin 1599999000000)), (''open'', Num (Fin 104)), (''close'', Num (Fin 105)),
                   (''high'', Num (Fin 106)), (''low'', Num (Fin 103)), (''volume'', Num (Fin 1000))],
              Obj [(''timestamp'', Num (Fin 1599999300000)), (''open'', Null), (''close'', Num (Fin 105)),
                   (''high'', Num (Fin 106)), (''low'', Num (Fin 104)), (''volume'', Num (Fin 2000))],
              Obj [(''timestamp'', Num (Fin 1599999600000)), (''open'', Undefined), (''close'', Num (Fin 105)),
                   (''high'', Num (Fin 107)), (''low'', Num (Fin 104)), (''volume'', Num (Fin 1500))]])]"

text \<open>A response whose error envelope is populated, for either endpoint family.\<close>

definition example_error :: "string \<Rightarrow> jsval" where
  "example_error kind =
     Obj [(kind, Obj
       [(''result'', Null),
        (''error'', Obj [(''code'', Str ''Not Found''),
                         (''description'', Str ''No data found, symbol may be delisted'')])])]"

text \<open>
  A quote response without \<^verbatim>\<open>priceHint\<close> and \<^verbatim>\<open>longName\<close> whose price is the double nearest
  to 123.456, extended by the given properties, and the record returned for it.
\<close>

definition example_price :: "(string \<times> jsval) list" where
  "example_price =
     [(''symbol'', Str ''AAPL''),
      (''currency'', Str ''USD''),
      (''shortName'', Str ''Apple Inc.''),
      (''quoteType'', Str ''EQUITY''),
      (''exchange'', Str ''NMS''),
      (''regularMarketTime'', Num (Fin 1600000000)),
      (''regularMarketPrice'', Obj [(''raw'', Num (Fin (8687443681197687 / 70368744177664))), (''fmt'', Str ''123.46'')])]"

definition example_quote :: "(string \<times> jsval) list \<Rightarrow> jsval" where
  "example_quote extra =
     Obj [(''quoteSummary'', Obj
       [(''result'', Arr [Obj [(''price'', Obj (example_price @ extra))]]),
        (''error'', Null)])]"

definition example_quote_record :: "jsval \<Rightarrow> jsval \<Rightarrow> jsval" where
  "example_quote_record dayHighPrice dayLowPrice =
     Obj [(''symbol'', Str ''AAPL''),
          (''currency'', Str ''USD''),
          (''shortName'', Str ''Apple Inc.''),
          (''longName'', Str ''Apple Inc.''),
          (''instrument'', Str ''EQUITY''),
          (''exchange'', Str ''NMS''),
          (''exchangeName'', Null),
          (''currentPrice'', Str ''123.46''),
          (''dayHighPrice'', dayHighPrice),
          (''dayLowPrice'', dayLowPrice),
          (''openPrice'', Null),
          (''volume'', Null),
          (''updatedDateTime'', DateV (Fin 1600000000000)),
          (''priceChange'', Null),
          (''priceChangePercentage'', Null),
          (''priceDecimals'', Num (Fin 2)),
          (''previousClose'', Null),
          (''marketCap'', Null)]"





text \<open>
  A profile response: a detail block with price hint 4, a beta of 1.2 and a dividend yield
  of 0.0065 (as doubles), with the modules given; a company block without \<^verbatim>\<open>address2\<close>;
  and the records returned for a company and for an index whose components are absent.
\<close>

definition example_detail :: jsval where
  "example_detail =
     Obj [(''currency'', Str ''USD''),
          (''priceHint'', Obj [(''raw'', Num (Fin 4)), (''fmt'', Str ''4'')]),
          (''beta'', Obj [(''raw'', Num (Fin (5404319552844595 / 4503599627370496))), (''fmt'', Str ''1.20'')]),
          (''fiftyTwoWeekLow'', Obj []),
          (''dividendYield'', Obj [(''raw'', Num (Fin (7493989779944505 / 1152921504606846976))),
                                   (''fmt'', Str ''0.65%'')])]"

definition example_summaryProfile :: jsval where
  "example_summaryProfile =
     Obj [(''address1'', Str ''1 Main St''),
          (''city'', Str ''Springfield''),
          (''zip'', Str ''00000''),
          (''country'', Str ''USA''),
          (''phone'', Str ''555 0100''),
          (''sector'', Str ''Technology'')]"

definition example_profile :: "(string \<times> jsval) list \<Rightarrow> jsval" where
  "example_profile modules =
     Obj [(''quoteSummary'', Obj
       [(''result'', Arr [Obj ((''summaryDetail'', example_detail) # modules)]),
        (''error'', Null)])]"

definition example_detail_record :: jsval where
  "example_detail_record =
     Obj [(''currency'', Str ''USD''),
          (''priceHistory'', Obj
             [(''beta'', Str ''1.2000''),
              (''fiftyTwoWeekLow'', Null),
              (''fiftyTwoWeekHigh'', Null),
              (''fiftyDayAverage'', Null),
              (''twoHundredDayAverage'', Null)]),
          (''dividend'', Obj
             [(''rate'', Null),
              (''yield'', Str ''0.65''),
              (''exDate'', Null),
              (''trailingAnnualRate'', Null),
              (''trailingAnnualYield'', Null)])]"

definition example_company_record :: jsval where
  "example_company_record =
     Obj [(''summaryProfile'', Obj
            [(''address'', Str ''1 Main St, Springfield 00000, USA''),
             (''phone'', Str ''555 0100''),
             (''website'', Undefined),
             (''industry'', Undefined),
             (''sector'', Str ''Technology''),
             (''description'', Undefined),
             (''fullTimeEmployees'', Undefined)]),
          (''summaryDetail'', example_detail_record),
          (''components'', Null)]"


text \<open>
  A chart response whose \<^verbatim>\<open>previousClose\<close> is zero, and a company profile response whose
  dividend rate and yield are supplied as empty objects, with the records returned for them.
\<close>

definition example_zero_chart :: jsval where
  "example_zero_chart =
     Obj [(''chart'', Obj
       [(''result'', Arr
          [Obj [(''meta'', Obj
                  [(''currency'', Str ''USD''),
                   (''symbol'', Str ''NEWCO''),
                   (''regularMarketTime'', Num (Fin 1600000000)),
                   (''regularMarketPrice'', Num (Fin 105)),
                   (''previousClose'', Num (Fin 0)),
                   (''currentTradingPeriod'', Obj
                      [(''regular'', Obj [(''start'', Num (Fin 1599999000)),
                                          (''end'', Num (Fin 1600022400))])])]),
                (''timestamp'', Arr []),
                (''indicators'', Obj
                   [(''quote'', Arr
                      [Obj [(''open'', Arr []), (''high'', Arr []), (''low'', Arr []),
                            (''close'', Arr []), (''volume'', Arr [])]])])]]),
        (''error'', Null)])]"

definition example_zero_record :: jsval where
  "example_zero_record =
     Obj [(''symbol'', Str ''NEWCO''),
          (''currency'', Str ''USD''),
          (''instrument'', Undefined),
          (''exchange'', Obj
             [(''timezone'', Undefined),
              (''timezoneName'', Undefined),
              (''tradingPeriod'', Obj [(''start'', Num (Fin 1599999000)), (''end'', Num (Fin 1600022400))])]),
          (''currentPrice'', Num (Fin 105)),
          (''previousClose'', Num (Fin 0)),
          (''priceChange'', Num (Fin 105)),
          (''priceChangePercentage'', Str ''Infinity''),
          (''updatedDateTime'', DateV (Fin 1600000000000)),
          (''timeseries'', Arr [])]"



section \<open>Sequencing\<close>

lemma andThen_Inr [simp]: "andThen (Inr x) f = f x"
  by (simp add: andThen_def)

lemma andThen_Inl [simp]: "andThen (Inl e) f = Inl e"
  by (simp add: andThen_def)

lemma andThen_eq_Inr: "andThen m f = Inr r \<longleftrightarrow> (\<exists>x. m = Inr x \<and> f x = Inr r)"
  by (cases m) simp_all

section \<open>Digits of \<^verbatim>\<open>toFixed\<close>\<close>

lemma dec_digits_nonempty: "dec_digits n \<noteq> []"
  by (subst dec_digits.simps) simp

lemma is_digit_digit_char: "is_digit (digit_char d)"
  unfolding is_digit_def digit_char_def by (rule nth_mem) simp

lemma dec_digits_all_digits: "list_all is_digit (dec_digits n)"
proof (induction n rule: dec_digits.induct)
  case (1 n)
  show ?case
  proof (cases "n < 10")
    case True
    then show ?thesis by (subst dec_digits.simps) (simp add: is_digit_digit_char)
  next
    case False
    with 1 show ?thesis by (subst dec_digits.simps) (simp add: is_digit_digit_char)
  qed
qed

lemma after_point_digits: "list_all is_digit a \<Longrightarrow> after_point (a @ CHR ''.'' # b) = Some b"
  by (induction a) (auto simp: is_digit_def)

lemma after_point_none: "list_all is_digit a \<Longrightarrow> after_point a = None"
  by (induction a) (auto simp: is_digit_def)

lemma has_decimals_fixed_digits: "has_decimals (fixed_digits x f) f"
proof (cases "f = 0")
  case True
  then show ?thesis
    by (simp add: fixed_digits_def has_decimals_def after_point_none dec_digits_all_digits)
next
  case False
  define m where "m = dec_digits (nat \<lfloor>x * 10 ^ f + 1 / 2\<rfloor>)"
  define m' where "m' = (if length m \<le> f then replicate (f + 1 - length m) (CHR ''0'') @ m else m)"
  have dm: "list_all is_digit m" by (simp add: m_def dec_digits_all_digits)
  have z: "is_digit (CHR ''0'')" by (simp add: is_digit_def)
  have dm': "list_all is_digit m'" using dm z by (simp add: m'_def list_all_iff)
  have len: "f < length m'" by (auto simp: m'_def)
  have eq: "fixed_digits x f = take (length m' - f) m' @ CHR ''.'' # drop (length m' - f) m'"
    using False by (simp add: fixed_digits_def m'_def m_def Let_def)
  have a: "list_all is_digit (take (length m' - f) m')"
    using dm' by (metis append_take_drop_id list_all_append)
  have b: "list_all is_digit (drop (length m' - f) m')"
    using dm' by (metis append_take_drop_id list_all_append)
  show ?thesis
    unfolding eq has_decimals_def using a b len False
    by (simp add: after_point_digits)
qed

lemma has_decimals_minus: "has_decimals (CHR ''-'' # s) p = has_decimals s p"
  by (simp add: has_decimals_def)

lemma digit_val_digit_char: "digit_val (digit_char d) = d mod 10"
proof -
  have "\<forall>k<10. digit_val (''0123456789'' ! k) = k"
    by (simp add: digit_val_def All_less_Suc numeral_nat)
  then show ?thesis by (simp add: digit_char_def)
qed

lemma digits_value_snoc: "digits_value (s @ [c]) = 10 * digits_value s + digit_val c"
  by (simp add: digits_value_def)

lemma digits_value_dec_digits: "digits_value (dec_digits n) = n"
proof (induction n rule: dec_digits.induct)
  case (1 n)
  show ?case
  proof (cases "n < 10")
    case True
    then show ?thesis
      by (subst dec_digits.simps) (simp add: digits_value_def digit_val_digit_char)
  next
    case False
    with 1 show ?thesis
      by (subst dec_digits.simps) (simp add: digits_value_snoc digit_val_digit_char)
  qed
qed

lemma digits_value_zeros: "digits_value (replicate k (CHR ''0'') @ s) = digits_value s"
proof -
  have dv0: "digit_val (CHR ''0'') = 0" by (simp add: digit_val_def)
  have "foldl (\<lambda>a c. 10 * a + digit_val c) 0 (replicate k (CHR ''0'')) = 0"
    by (induction k) (simp_all add: dv0)
  then show ?thesis by (simp add: digits_value_def)
qed

lemma filter_digits: "list_all is_digit a \<Longrightarrow> filter (\<lambda>c. c \<noteq> CHR ''.'') a = a"
  by (induction a) (auto simp: is_digit_def)

lemma hd_digits: "list_all is_digit a \<Longrightarrow> a \<noteq> [] \<Longrightarrow> hd a \<noteq> CHR ''-''"
  by (cases a) (auto simp: is_digit_def)

lemma text_value_fixed_digits:
  "text_value (fixed_digits x f) = of_nat (nat \<lfloor>x * 10 ^ f + 1 / 2\<rfloor>) / 10 ^ f"
proof -
  define n where "n = nat \<lfloor>x * 10 ^ f + 1 / 2\<rfloor>"
  define m where "m = dec_digits n"
  define m' where "m' = (if f \<noteq> 0 \<and> length m \<le> f then replicate (f + 1 - length m) (CHR ''0'') @ m else m)"
  have z: "is_digit (CHR ''0'')" by (simp add: is_digit_def)
  have dm: "list_all is_digit m" by (simp add: m_def dec_digits_all_digits)
  have dm': "list_all is_digit m'" using dm z by (simp add: m'_def list_all_iff)
  have ne: "m' \<noteq> []" by (simp add: m'_def m_def dec_digits_nonempty)
  have val: "digits_value m' = n"
    by (simp add: m'_def digits_value_zeros) (simp add: m_def digits_value_dec_digits)
  show ?thesis
  proof (cases "f = 0")
    case True
    then have eq: "fixed_digits x f = m'"
      by (simp add: fixed_digits_def m'_def m_def n_def Let_def)
    show ?thesis
      unfolding eq text_value_def Let_def
      using dm' ne val True
      by (simp add: hd_digits filter_digits after_point_none n_def)
  next
    case False
    have len: "f < length m'" using False by (auto simp: m'_def)
    define a where "a = take (length m' - f) m'"
    define b where "b = drop (length m' - f) m'"
    have ab: "a @ b = m'" by (simp add: a_def b_def)
    have da: "list_all is_digit a" and db: "list_all is_digit b"
      using dm' ab by (metis list_all_append)+
    have ane: "a \<noteq> []" using len by (auto simp: a_def)
    have lb: "length b = f" using len by (simp add: b_def)
    have eq: "fixed_digits x f = a @ CHR ''.'' # b"
      using False by (simp add: fixed_digits_def m'_def m_def n_def a_def b_def Let_def)
    have h: "hd (a @ CHR ''.'' # b) \<noteq> CHR ''-''"
      using hd_digits [OF da ane] ane by simp
    have fl: "filter (\<lambda>c. c \<noteq> CHR ''.'') (a @ CHR ''.'' # b) = m'"
      using da db ab by (simp add: filter_digits)
    show ?thesis
      unfolding eq text_value_def Let_def
      using h fl val lb da by (simp add: after_point_digits n_def)
  qed
qed

lemma round_half_up_bound:
  fixes y :: rat
  assumes "0 \<le> y"
  shows "\<bar>of_nat (nat \<lfloor>y + 1 / 2\<rfloor>) - y\<bar> \<le> 1 / 2"
proof -
  have nn: "0 \<le> \<lfloor>y + 1 / 2\<rfloor>" using assms by simp
  then have e: "(of_nat (nat \<lfloor>y + 1 / 2\<rfloor>) :: rat) = of_int \<lfloor>y + 1 / 2\<rfloor>"
    by simp
  have "of_int \<lfloor>y + 1 / 2\<rfloor> \<le> y + 1 / 2" by (rule of_int_floor_le)
  moreover have "y + 1 / 2 < of_int \<lfloor>y + 1 / 2\<rfloor> + 1"
    using floor_correct [of "y + 1 / 2"] by simp
  ultimately show ?thesis unfolding e by linarith
qed

lemma fixed_digits_close:
  assumes "0 \<le> x"
  shows "\<bar>text_value (fixed_digits x f) - x\<bar> \<le> 1 / (2 * 10 ^ f)"
proof -
  define n :: rat where "n = of_nat (nat \<lfloor>x * 10 ^ f + 1 / 2\<rfloor>)"
  have "\<bar>n - x * 10 ^ f\<bar> \<le> 1 / 2"
    unfolding n_def using assms by (intro round_half_up_bound) simp
  then have "\<bar>n - x * 10 ^ f\<bar> / 10 ^ f \<le> (1 / 2) / 10 ^ f"
    by (intro divide_right_mono) simp_all
  moreover have "\<bar>n - x * 10 ^ f\<bar> / 10 ^ f = \<bar>n / 10 ^ f - x\<bar>"
  proof -
    have p: "(0::rat) < 10 ^ f" by simp
    have "n / 10 ^ f - x = (n - x * 10 ^ f) / 10 ^ f"
      by (simp add: diff_divide_distrib)
    then show ?thesis
      by (simp only: abs_divide abs_of_pos [OF p])
  qed
  ultimately show ?thesis
    by (simp add: text_value_fixed_digits n_def)
qed

lemma fixed_digits_head: "fixed_digits x f \<noteq> [] \<and> hd (fixed_digits x f) \<noteq> CHR ''-''"
proof -
  define m where "m = dec_digits (nat \<lfloor>x * 10 ^ f + 1 / 2\<rfloor>)"
  define m' where "m' = (if f \<noteq> 0 \<and> length m \<le> f then replicate (f + 1 - length m) (CHR ''0'') @ m else m)"
  have z: "is_digit (CHR ''0'')" by (simp add: is_digit_def)
  have dm: "list_all is_digit m" by (simp add: m_def dec_digits_all_digits)
  have dm': "list_all is_digit m'" using dm z by (simp add: m'_def list_all_iff)
  have ne: "m' \<noteq> []" by (simp add: m'_def m_def dec_digits_nonempty)
  have len: "f \<noteq> 0 \<Longrightarrow> f < length m'" by (auto simp: m'_def)
  show ?thesis
  proof (cases "f = 0")
    case True
    then have "fixed_digits x f = m'"
      by (simp add: fixed_digits_def m'_def m_def Let_def)
    then show ?thesis using ne hd_digits [OF dm' ne] by simp
  next
    case False
    define a where "a = take (length m' - f) m'"
    have ane: "a \<noteq> []" using len [OF False] by (auto simp: a_def)
    have da: "list_all is_digit a"
      using dm' unfolding a_def by (metis append_take_drop_id list_all_append)
    have "fixed_digits x f = a @ CHR ''.'' # drop (length m' - f) m'"
      using False by (simp add: fixed_digits_def m'_def m_def a_def Let_def)
    then show ?thesis using ane hd_digits [OF da ane] by simp
  qed
qed

lemma text_value_minus:
  assumes "s \<noteq> []" "hd s \<noteq> CHR ''-''"
  shows "text_value (CHR ''-'' # s) = - text_value s"
  using assms by (simp add: text_value_def Let_def)

lemma toFixed_finite:
  assumes "\<bar>q\<bar> < 10 ^ 21" "P \<le> 100"
  shows "\<exists>s. Number_toFixed rt (Fin q) (Fin (of_nat P)) = Inr s \<and> has_decimals s P
           \<and> \<bar>text_value s - q\<bar> \<le> 1 / (2 * 10 ^ P)"
proof -
  have f: "ToIntegerOrInfinity (Fin (of_nat P)) = Some (int P)" by simp
  show ?thesis
  proof (cases "q < 0")
    case True
    have eq: "Number_toFixed rt (Fin q) (Fin (of_nat P)) = Inr (CHR ''-'' # fixed_digits \<bar>q\<bar> P)"
      using assms True by (simp add: Number_toFixed_def f)
    have "text_value (CHR ''-'' # fixed_digits \<bar>q\<bar> P) = - text_value (fixed_digits \<bar>q\<bar> P)"
      using fixed_digits_head [of "\<bar>q\<bar>" P] by (intro text_value_minus) simp_all
    moreover have "\<bar>text_value (fixed_digits \<bar>q\<bar> P) - \<bar>q\<bar>\<bar> \<le> 1 / (2 * 10 ^ P)"
      by (rule fixed_digits_close) simp
    ultimately have "\<bar>text_value (CHR ''-'' # fixed_digits \<bar>q\<bar> P) - q\<bar> \<le> 1 / (2 * 10 ^ P)"
      using True by (simp add: abs_if split: if_splits)
    then show ?thesis
      unfolding eq by (simp add: has_decimals_minus has_decimals_fixed_digits)
  next
    case False
    have eq: "Number_toFixed rt (Fin q) (Fin (of_nat P)) = Inr (fixed_digits q P)"
      using assms False by (simp add: Number_toFixed_def f)
    have "\<bar>text_value (fixed_digits q P) - q\<bar> \<le> 1 / (2 * 10 ^ P)"
      using False by (intro fixed_digits_close) simp
    then show ?thesis
      unfolding eq by (simp add: has_decimals_fixed_digits)
  qed
qed

section \<open>Exact integer products\<close>

lemma bit_length_le: "m < 2 ^ n \<Longrightarrow> bit_length m \<le> n"
proof (induction m arbitrary: n rule: bit_length.induct)
  case (1 m)
  show ?case
  proof (cases "m = 0")
    case True
    then show ?thesis by (subst bit_length.simps) simp
  next
    case False
    with "1.prems" obtain k where n: "n = Suc k" by (cases n) auto
    with "1.prems" have "m div 2 < 2 ^ k" by auto
    with "1.IH" [OF False] have "bit_length (m div 2) \<le> k" by blast
    with False n show ?thesis by (subst bit_length.simps) simp
  qed
qed

lemma bit_length_one: "bit_length (Suc 0) = 1"
  by (simp add: bit_length.simps)

lemma round_even_of_int: "round_even (of_int z) = z"
  by (simp add: round_even_def)

lemma floor_log2_of_nat_le:
  assumes "m < 2 ^ 53"
  shows "floor_log2 (of_nat m) \<le> 52"
proof -
  have "bit_length m \<le> 53" using assms by (rule bit_length_le)
  then show ?thesis
    by (simp add: floor_log2_def)
qed

lemma round_mag_of_nat:
  assumes "m < 2 ^ 53"
  shows "round_mag (of_nat m) = Some (of_nat m)"
proof (cases "m = 0")
  case True
  then show ?thesis by (simp add: round_mag_def)
next
  case False
  define e where "e = max (floor_log2 (of_nat m) - 52) (- 1074)"
  have e: "e \<le> 0" using floor_log2_of_nat_le [OF assms] by (simp add: e_def)
  define d where "d = nat (- e)"
  have p: "pow2 e = 1 / 2 ^ d" using e by (auto simp: pow2_def d_def)
  have "of_nat m / pow2 e = (of_int (int (m * 2 ^ d)) :: rat)"
    by (simp add: p)
  then have r: "round_even (of_nat m / pow2 e) = int (m * 2 ^ d)"
    by (simp only: round_even_of_int)
  have v: "of_int (round_even (of_nat m / pow2 e)) * pow2 e = (of_nat m :: rat)"
    unfolding r by (simp add: p)
  have "(of_nat m :: rat) < 2 ^ 53" using assms
    by (metis of_nat_less_iff of_nat_numeral of_nat_power)
  also have "\<dots> \<le> 2 ^ 1024" by (rule power_increasing) simp_all
  finally have "\<not> pow2 1024 \<le> (of_nat m :: rat)" by (simp add: pow2_def)
  then show ?thesis
    using False v by (simp add: round_mag_def Let_def e_def)
qed

lemma js_mul_int:
  assumes "\<bar>a * b\<bar> < 2 ^ 53" "0 < b"
  shows "js_mul (Fin (of_int a)) (Fin (of_int b)) = Fin (of_int (a * b))"
proof (cases "a = 0")
  case True
  then show ?thesis using assms by (simp add: js_mul_def signed_def round_mag_def)
next
  case False
  define m where "m = nat \<bar>a * b\<bar>"
  have m: "m < 2 ^ 53" using assms by (simp add: m_def nat_less_iff)
  have "\<bar>rat_of_int a\<bar> * \<bar>rat_of_int b\<bar> = rat_of_int \<bar>a * b\<bar>"
    by (simp add: abs_mult)
  also have "\<dots> = of_nat m" by (simp add: m_def)
  finally have mag: "\<bar>rat_of_int a\<bar> * \<bar>rat_of_int b\<bar> = of_nat m" .
  have m0: "m \<noteq> 0" using False assms by (simp add: m_def)
  have s: "(a < 0) = (a * b < 0)" using assms False
    by (auto simp: mult_less_0_iff)
  have val: "rat_of_int (a * b) = (if a < 0 then - of_nat m else of_nat m)"
    unfolding s by (simp add: m_def del: of_int_mult)
  have "signed (a < 0) (of_nat m) = Fin (of_int (a * b))"
    using m0 by (simp add: signed_def round_mag_of_nat [OF m] val del: of_int_mult)
  moreover have "\<bar>rat_of_int a\<bar> * rat_of_int b = of_nat m"
    using mag assms by simp
  ultimately show ?thesis
    using False assms by (simp add: js_mul_def del: of_int_mult)
qed

section \<open>Shape of a successful chart\<close>

lemma throw_new_Error_not_Inr: "throw_new_Error rt m \<noteq> Inr r"
  by (cases "ToString rt m") (simp_all add: throw_new_Error_def)

lemma resolveChart_Inr:
  assumes "resolveChart rt symbol range' interval = Inr r"
  shows "\<exists>resp. fetched rt (chart_url symbol range' interval) = Inr resp
           \<and> chart_of_response rt resp = Inr r"
  using assms by (auto simp: resolveChart_def fetched_def andThen_eq_Inr)

lemma chart_of_response_Inr:
  assumes "chart_of_response rt resp = Inr r"
  shows "\<exists>result meta quote.
           payload resp ''chart'' = Inr result \<and> get_prop result ''meta'' = Inr meta
           \<and> chart_series result = Inr quote \<and> chart_record rt result meta quote = Inr r"
  using assms
  by (auto simp: chart_of_response_def payload_def chart_series_def andThen_eq_Inr
        throw_new_Error_not_Inr split: if_splits)

lemma chart_record_shape:
  assumes "chart_record rt result meta quote = Inr r"
  shows "\<exists>symbol currency instrument currentPrice previousClose priceChange diff ratio percent
            priceChangePercentage time ms updatedDateTime exchange timestamps timeseries.
           get_prop meta ''symbol'' = Inr symbol
         \<and> get_prop meta ''currency'' = Inr currency
         \<and> get_prop meta ''instrumentType'' = Inr instrument
         \<and> get_prop meta ''regularMarketPrice'' = Inr currentPrice
         \<and> get_prop meta ''previousClose'' = Inr previousClose
         \<and> js_minus rt currentPrice previousClose = Inr priceChange
         \<and> js_minus rt currentPrice previousClose = Inr diff
         \<and> js_divide rt diff previousClose = Inr ratio
         \<and> js_times rt ratio (Num (Fin 100)) = Inr percent
         \<and> call_toFixed rt percent (Num (Fin 2)) = Inr priceChangePercentage
         \<and> get_prop meta ''regularMarketTime'' = Inr time
         \<and> js_times rt time (Num (Fin 1000)) = Inr ms
         \<and> new_Date ms = Inr updatedDateTime
         \<and> chart_exchange meta = Inr exchange
         \<and> get_prop result ''timestamp'' = Inr timestamps
         \<and> array_map timestamps (chart_bar rt quote) = Inr timeseries
         \<and> r = Obj
             [(''symbol'', symbol),
              (''currency'', currency),
              (''instrument'', instrument),
              (''exchange'', exchange),
              (''currentPrice'', currentPrice),
              (''previousClose'', previousClose),
              (''priceChange'', priceChange),
              (''priceChangePercentage'', priceChangePercentage),
              (''updatedDateTime'', updatedDateTime),
              (''timeseries'', timeseries)]"
  using assms unfolding chart_record_def andThen_eq_Inr
  by (auto simp: obj_lit_def)


lemma map_idx_Inr:
  "map_idx cb xs i = Inr ys \<Longrightarrow>
     length ys = length xs \<and> (\<forall>j<length xs. cb (xs ! j) (i + j) = Inr (ys ! j))"
proof (induction xs arbitrary: i ys)
  case Nil
  then show ?case by simp
next
  case (Cons x xs)
  from Cons.prems obtain y ys' where y: "cb x i = Inr y" and ys': "map_idx cb xs (Suc i) = Inr ys'"
    and eq: "ys = y # ys'"
    by (auto simp: andThen_eq_Inr)
  from Cons.IH [OF ys'] have len: "length ys' = length xs"
    and rest: "\<forall>j<length xs. cb (xs ! j) (Suc i + j) = Inr (ys' ! j)" by simp_all
  show ?case
  proof (intro conjI allI impI)
    show "length ys = length (x # xs)" using len eq by simp
  next
    fix j assume "j < length (x # xs)"
    then show "cb ((x # xs) ! j) (i + j) = Inr (ys ! j)"
      using y rest eq by (cases j) simp_all
  qed
qed

lemma array_map_Inr:
  assumes "array_map v cb = Inr w"
  shows "\<exists>xs ys. v = Arr xs \<and> w = Arr ys \<and> length ys = length xs
           \<and> (\<forall>j<length xs. cb (xs ! j) j = Inr (ys ! j))"
proof (cases v)
  case (Arr xs)
  with assms obtain ys where ys: "map_idx cb xs 0 = Inr ys" and w: "w = Arr ys"
    by (auto simp: andThen_eq_Inr)
  from map_idx_Inr [OF ys] Arr w show ?thesis by simp
qed (use assms in simp_all)

lemma map_idx_total:
  "(\<forall>x\<in>set xs. \<forall>j. \<exists>y. cb x j = Inr y) \<Longrightarrow> \<exists>ys. map_idx cb xs i = Inr ys"
proof (induction xs arbitrary: i)
  case Nil
  then show ?case by simp
next
  case (Cons x xs)
  from Cons.prems have "\<exists>y. cb x i = Inr y" by simp
  then obtain y where y: "cb x i = Inr y" ..
  from Cons.prems have "\<forall>x\<in>set xs. \<forall>j. \<exists>y. cb x j = Inr y" by simp
  from Cons.IH [OF this] obtain ys where "map_idx cb xs (Suc i) = Inr ys" ..
  with y show ?case by simp
qed

lemma chart_bar_shape:
  assumes "chart_bar rt quote t idx = Inr b"
  shows "get_prop b ''timestamp'' = js_times rt t (Num (Fin 1000))
       \<and> (\<forall>k\<in>set series_keys. \<exists>a. get_prop quote k = Inr a \<and> get_prop b k = get_index a idx)"
  using assms unfolding chart_bar_def andThen_eq_Inr
  by (auto simp: obj_lit_def series_keys_def)

lemma get_index_Inr: "get_prop v k = Inr a \<Longrightarrow> \<exists>w. get_index v i = Inr w"
  by (cases v) simp_all

lemma chart_bar_total:
  assumes "\<forall>k\<in>set series_keys. \<exists>xs. get_prop quote k = Inr (Arr xs)"
  shows "\<exists>b. chart_bar rt quote (Num n) idx = Inr b"
  using assms
  by (auto simp: chart_bar_def series_keys_def js_times_def)

section \<open>Evaluating the arithmetic on numerals\<close>

lemma bit_length_0: "bit_length 0 = 0"
  by (simp add: bit_length.simps)

lemma bit_length_1: "bit_length 1 = 1"
  by (simp add: bit_length.simps)

lemma bit_length_numeral: "bit_length (numeral k) = Suc (bit_length (numeral k div 2))"
  by (subst bit_length.simps) simp

lemma floor_numeral_div: "\<lfloor>numeral a / numeral b :: rat\<rfloor> = numeral a div numeral b"
  using floor_divide_of_int_eq [of "numeral a" "numeral b", where ?'a = rat] by simp

lemma ceiling_numeral_div: "\<lceil>numeral a / numeral b :: rat\<rceil> = - ((- numeral a) div numeral b)"
  using floor_divide_of_int_eq [of "- numeral a" "numeral b", where ?'a = rat]
  by (simp add: ceiling_def)

lemmas num_eval =
  js_mul_def js_div_def js_sub_def signed_def round_mag_def floor_log2_def round_even_def
  pow2_def is_zero_def Let_def bit_length_0 bit_length_1 bit_length_one bit_length_numeral
  floor_numeral_div ceiling_numeral_div

lemmas fixed_eval =
  fixed_digits_def Let_def dec_digits.simps digit_char_def floor_numeral_div

section \<open>The chart example, evaluated\<close>

lemma pct_105_100: "js_mul (js_div (js_sub (Fin 105) (Fin 100)) (Fin 100)) (Fin 100) = Fin 5"
  by (simp add: num_eval)

lemma sub_105_100: "js_sub (Fin 105) (Fin 100) = Fin 5"
  by (simp add: num_eval)

lemma fixed_5: "fixed_digits 5 2 = ''5.00''"
  by (simp add: fixed_eval)

lemma toFixed_5: "Number_toFixed rt (Fin 5) (Fin 2) = Inr ''5.00''"
  by (simp add: Number_toFixed_def fixed_5)

lemma ms_1000:
  "js_mul (Fin 1600000000) (Fin 1000) = Fin 1600000000000"
  "js_mul (Fin 1599999000) (Fin 1000) = Fin 1599999000000"
  "js_mul (Fin 1599999300) (Fin 1000) = Fin 1599999300000"
  "js_mul (Fin 1599999600) (Fin 1000) = Fin 1599999600000"
  using js_mul_int [of 1600000000 1000] js_mul_int [of 1599999000 1000]
    js_mul_int [of 1599999300 1000] js_mul_int [of 1599999600 1000]
  by simp_all

lemma example_exchange:
  "chart_exchange example_meta =
     Inr (Obj [(''timezone'', Str ''EDT''), (''timezoneName'', Str ''America/New_York''),
               (''tradingPeriod'', Obj [(''start'', Num (Fin 1599999000)), (''end'', Num (Fin 1600022400))])])"
  by (simp add: chart_exchange_def example_meta_def obj_lit_def)

lemma example_bars:
  "array_map (Arr [Num (Fin 1599999000), Num (Fin 1599999300), Num (Fin 1599999600)])
     (chart_bar rt example_series) =
   Inr (Arr
     [Obj [(''timestamp'', Num (Fin 1599999000000)), (''open'', Num (Fin 104)), (''close'', Num (Fin 105)),
           (''high'', Num (Fin 106)), (''low'', Num (Fin 103)), (''volume'', Num (Fin 1000))],
      Obj [(''timestamp'', Num (Fin 1599999300000)), (''open'', Null), (''close'', Num (Fin 105)),
           (''high'', Num (Fin 106)), (''low'', Num (Fin 104)), (''volume'', Num (Fin 2000))],
      Obj [(''timestamp'', Num (Fin 1599999600000)), (''open'', Undefined), (''close'', Num (Fin 105)),
           (''high'', Num (Fin 107)), (''low'', Num (Fin 104)), (''volume'', Num (Fin 1500))]])"
  by (simp add: chart_bar_def example_series_def obj_lit_def js_times_def ms_1000)

lemma example_chart_record_eval:
  "chart_record rt example_chart_result example_meta example_series = Inr example_chart_record"
proof -
  have ts: "get_prop example_chart_result ''timestamp'' =
      Inr (Arr [Num (Fin 1599999000), Num (Fin 1599999300), Num (Fin 1599999600)])"
    by (simp add: example_chart_result_def)
  have m: "get_prop example_meta ''symbol'' = Inr (Str ''AAPL'')"
    "get_prop example_meta ''currency'' = Inr (Str ''USD'')"
    "get_prop example_meta ''instrumentType'' = Inr (Str ''EQUITY'')"
    "get_prop example_meta ''exchangeName'' = Inr (Str ''NMS'')"
    "get_prop example_meta ''regularMarketPrice'' = Inr (Num (Fin 105))"
    "get_prop example_meta ''previousClose'' = Inr (Num (Fin 100))"
    "get_prop example_meta ''regularMarketTime'' = Inr (Num (Fin 1600000000))"
    by (simp_all add: example_meta_def)
  have ar: "js_minus rt (Num (Fin 105)) (Num (Fin 100)) = Inr (Num (Fin 5))"
    "js_divide rt (Num (Fin 5)) (Num (Fin 100)) = Inr (Num (js_div (Fin 5) (Fin 100)))"
    "js_times rt (Num (js_div (Fin 5) (Fin 100))) (Num (Fin 100)) = Inr (Num (Fin 5))"
    "js_times rt (Num (Fin 1600000000)) (Num (Fin 1000)) = Inr (Num (Fin 1600000000000))"
    using pct_105_100
    by (simp_all add: js_minus_def js_divide_def js_times_def sub_105_100 ms_1000)
  show ?thesis
    unfolding chart_record_def m ar ts example_exchange example_bars andThen_Inr
    by (simp add: toFixed_5 new_Date_def obj_lit_def example_chart_record_def)
qed

lemma example_chart_response:
  "chart_of_response rt example_chart = Inr example_chart_record"
  unfolding chart_of_response_def
  by (simp add: example_chart_def example_chart_result_def
        example_chart_record_eval [unfolded example_chart_result_def])

lemma example_chart_resolves:
  "resolveChart (canned ''{}'' example_chart) ''AAPL'' ''1d'' ''5m'' = Inr example_chart_record"
  by (simp add: resolveChart_def canned_def example_chart_response)

lemma toFixed_2_finite:
  assumes "\<bar>q\<bar> < 10 ^ 21"
  shows "\<exists>s. call_toFixed rt (Num (Fin q)) (Num (Fin 2)) = Inr (Str s) \<and> has_decimals s 2
           \<and> \<bar>text_value s - q\<bar> \<le> 1 / 200"
  using toFixed_finite [OF assms, of 2 rt] by auto

section \<open>The overwritten \<^verbatim>\<open>exchange\<close> key\<close>

lemma get_prop_defined: "get_prop v k = Inr x \<Longrightarrow> \<exists>y. get_prop v k' = Inr y"
  by (cases v) simp_all

lemma chart_record_exchangeName_irrelevant:
  assumes same: "\<And>k. k \<noteq> ''exchangeName'' \<Longrightarrow> get_prop meta' k = get_prop meta k"
  shows "chart_record rt result meta' quote = chart_record rt result meta quote"
proof -
  have ex: "chart_exchange meta' = chart_exchange meta"
    by (simp add: chart_exchange_def same)
  show ?thesis
  proof (cases "get_prop meta ''symbol''")
    case (Inl e)
    then show ?thesis by (simp add: chart_record_def same)
  next
    case (Inr v)
    then have "get_prop meta' ''symbol'' = Inr v" by (simp add: same)
    from get_prop_defined [OF this] get_prop_defined [OF Inr]
    obtain y y' where "get_prop meta' ''exchangeName'' = Inr y'" "get_prop meta ''exchangeName'' = Inr y"
      by blast
    then show ?thesis
      by (simp add: chart_record_def same ex obj_lit_def)
  qed
qed

section \<open>The error envelope\<close>

lemma truthy_get_prop: "truthy v \<Longrightarrow> \<exists>d. get_prop v k = Inr d"
  by (cases v) simp_all

lemma envelope_throws:
  assumes "truthy err"
  shows "(\<exists>e. andThen (get_prop err ''description'') (throw_new_Error rt) = (Inl e :: error + jsval))
       \<and> (\<forall>d. get_prop err ''description'' = Inr (Str d) \<longrightarrow>
             andThen (get_prop err ''description'') (throw_new_Error rt) = (Inl (Error d) :: error + jsval))"
proof -
  from truthy_get_prop [OF assms] obtain m where m: "get_prop err ''description'' = Inr m" by blast
  have "\<exists>e. (throw_new_Error rt m :: error + jsval) = Inl e"
    by (cases "throw_new_Error rt m :: error + jsval") (auto simp: throw_new_Error_not_Inr)
  then show ?thesis using m by (auto simp: throw_new_Error_def)
qed

lemma chart_of_response_error:
  assumes "envelope_error resp ''chart'' = Inr err" "truthy err"
  shows "chart_of_response rt resp = andThen (get_prop err ''description'') (throw_new_Error rt)"
  using assms by (auto simp: envelope_error_def chart_of_response_def andThen_eq_Inr)

lemma quote_of_response_error:
  assumes "envelope_error resp ''quoteSummary'' = Inr err" "truthy err"
  shows "quote_of_response rt resp = andThen (get_prop err ''description'') (throw_new_Error rt)"
  using assms by (auto simp: envelope_error_def quote_of_response_def andThen_eq_Inr)

lemma profile_of_response_error:
  assumes "envelope_error resp ''quoteSummary'' = Inr err" "truthy err"
  shows "profile_of_response rt isIndex resp = andThen (get_prop err ''description'') (throw_new_Error rt)"
  using assms by (auto simp: envelope_error_def profile_of_response_def andThen_eq_Inr)

lemma resolveChart_fetched:
  "fetched rt (chart_url symbol range' interval) = Inr resp \<Longrightarrow>
     resolveChart rt symbol range' interval = chart_of_response rt resp"
  by (auto simp: fetched_def resolveChart_def andThen_eq_Inr)

lemma resolveQuote_fetched:
  "fetched rt (quote_url symbol) = Inr resp \<Longrightarrow>
     resolveQuote rt symbol = quote_of_response rt resp"
  by (auto simp: fetched_def resolveQuote_def andThen_eq_Inr)

lemma resolveProfile_fetched:
  "fetched rt (profile_url symbol (profile_modules (startsWith_caret symbol))) = Inr resp \<Longrightarrow>
     resolveProfile rt symbol = profile_of_response rt (startsWith_caret symbol) resp"
  by (auto simp: fetched_def resolveProfile_def andThen_eq_Inr Let_def)

section \<open>Shape of a successful quote\<close>

lemma fixed_123: "fixed_digits (8687443681197687 / 70368744177664) 2 = ''123.46''"
  by (simp add: fixed_eval)

lemma toFixed_123:
  "Number_toFixed rt (Fin (8687443681197687 / 70368744177664)) (Fin 2) = Inr ''123.46''"
  by (simp add: Number_toFixed_def fixed_123)

lemma example_quote_low_only:
  "quote_record rt (Obj (example_price @ [(''regularMarketDayLow'', Obj [(''raw'', Num (Fin (243 / 2)))])]))
     (Num (Fin 2)) = Inr (example_quote_record Null Null)"
  by (simp add: quote_record_def example_price_def fixed_or_null_def raw_or_null_def
        percent_or_null_def toFixed_123 js_times_def ms_1000 new_Date_def obj_lit_def
        example_quote_record_def)

lemma example_quote_high_only:
  "quote_record rt (Obj (example_price @ [(''regularMarketDayHigh'', Obj [(''raw'', Num (Fin (249 / 2)))])]))
     (Num (Fin 2)) = Inl TypeError"
  by (simp add: quote_record_def example_price_def fixed_or_null_def raw_or_null_def
        percent_or_null_def toFixed_123 js_times_def ms_1000 new_Date_def obj_lit_def
        Number_toFixed_def fixed_eval)

lemma example_quote_decimals:
  "map_of extra ''priceHint'' = None \<Longrightarrow>
     priceHint_decimals (Obj (example_price @ extra)) = Inr (Num (Fin 2))"
  by (simp add: priceHint_decimals_def example_price_def)

lemma example_quote_response:
  "map_of extra ''priceHint'' = None \<Longrightarrow>
     quote_of_response rt (example_quote extra)
       = quote_record rt (Obj (example_price @ extra)) (Num (Fin 2))"
  unfolding quote_of_response_def
  by (simp add: example_quote_def example_quote_decimals)

lemma example_quote_plain:
  "quote_record rt (Obj example_price) (Num (Fin 2)) = Inr (example_quote_record Null Null)"
  by (simp add: quote_record_def example_price_def fixed_or_null_def raw_or_null_def
        percent_or_null_def toFixed_123 js_times_def ms_1000 new_Date_def obj_lit_def
        example_quote_record_def)

lemma resolveQuote_Inr:
  assumes "resolveQuote rt symbol = Inr r"
  shows "\<exists>resp. fetched rt (quote_url symbol) = Inr resp \<and> quote_of_response rt resp = Inr r"
  using assms by (auto simp: resolveQuote_def fetched_def andThen_eq_Inr)

lemma quote_of_response_Inr:
  assumes "quote_of_response rt resp = Inr r"
  shows "\<exists>result priceResult decimals.
           payload resp ''quoteSummary'' = Inr result \<and> get_prop result ''price'' = Inr priceResult
           \<and> priceHint_decimals priceResult = Inr decimals
           \<and> quote_record rt priceResult decimals = Inr r"
  using assms
  by (auto simp: quote_of_response_def payload_def andThen_eq_Inr
        throw_new_Error_not_Inr split: if_splits)

lemma quote_record_shape:
  assumes "quote_record rt priceResult decimals = Inr r"
  shows "\<exists>symbol currency shortName l longName instrument exchange n exchangeName currentPrice
            dayHighPrice dayLowPrice openPrice volume time ms updatedDateTime priceChange
            priceChangePercentage previousClose marketCap.
           get_prop priceResult ''symbol'' = Inr symbol
         \<and> get_prop priceResult ''currency'' = Inr currency
         \<and> get_prop priceResult ''shortName'' = Inr shortName
         \<and> get_prop priceResult ''longName'' = Inr l
         \<and> (if truthy l then Inr l else get_prop priceResult ''shortName'') = Inr longName
         \<and> get_prop priceResult ''quoteType'' = Inr instrument
         \<and> get_prop priceResult ''exchange'' = Inr exchange
         \<and> get_prop priceResult ''exchangeName'' = Inr n
         \<and> (if truthy n then get_prop priceResult ''exchangeName'' else Inr Null) = Inr exchangeName
         \<and> fixed_or_null rt priceResult ''regularMarketPrice'' ''regularMarketPrice'' decimals = Inr currentPrice
         \<and> fixed_or_null rt priceResult ''regularMarketDayHigh'' ''regularMarketDayHigh'' decimals = Inr dayHighPrice
         \<and> fixed_or_null rt priceResult ''regularMarketDayHigh'' ''regularMarketDayLow'' decimals = Inr dayLowPrice
         \<and> fixed_or_null rt priceResult ''regularMarketOpen'' ''regularMarketOpen'' decimals = Inr openPrice
         \<and> raw_or_null priceResult ''regularMarketVolume'' = Inr volume
         \<and> get_prop priceResult ''regularMarketTime'' = Inr time
         \<and> js_times rt time (Num (Fin 1000)) = Inr ms
         \<and> new_Date ms = Inr updatedDateTime
         \<and> fixed_or_null rt priceResult ''regularMarketChange'' ''regularMarketChange'' decimals = Inr priceChange
         \<and> percent_or_null rt priceResult ''regularMarketChangePercent'' = Inr priceChangePercentage
         \<and> fixed_or_null rt priceResult ''regularMarketPreviousClose'' ''regularMarketPreviousClose'' decimals = Inr previousClose
         \<and> raw_or_null priceResult ''marketCap'' = Inr marketCap
         \<and> r = Obj
             [(''symbol'', symbol),
              (''currency'', currency),
              (''shortName'', shortName),
              (''longName'', longName),
              (''instrument'', instrument),
              (''exchange'', exchange),
              (''exchangeName'', exchangeName),
              (''currentPrice'', currentPrice),
              (''dayHighPrice'', dayHighPrice),
              (''dayLowPrice'', dayLowPrice),
              (''openPrice'', openPrice),
              (''volume'', volume),
              (''updatedDateTime'', updatedDateTime),
              (''priceChange'', priceChange),
              (''priceChangePercentage'', priceChangePercentage),
              (''priceDecimals'', decimals),
              (''previousClose'', previousClose),
              (''marketCap'', marketCap)]"
  using assms unfolding quote_record_def andThen_eq_Inr
  by (elim exE conjE) (simp add: obj_lit_def)

lemma quote_record_names:
  assumes "quote_record rt priceResult decimals = Inr r"
  shows "\<exists>shortName longName.
           get_prop priceResult ''shortName'' = Inr shortName
         \<and> get_prop priceResult ''longName'' = Inr longName
         \<and> get_prop r ''shortName'' = Inr shortName
         \<and> get_prop r ''longName'' = Inr (if truthy longName then longName else shortName)
         \<and> get_prop r ''priceDecimals'' = Inr decimals"
proof -
  from quote_record_shape [OF assms] obtain shortName l longName
    where sn: "get_prop priceResult ''shortName'' = Inr shortName"
      and l: "get_prop priceResult ''longName'' = Inr l"
      and ln: "(if truthy l then Inr l else get_prop priceResult ''shortName'') = Inr longName"
      and rs: "get_prop r ''shortName'' = Inr shortName"
      and rl: "get_prop r ''longName'' = Inr longName"
      and rd: "get_prop r ''priceDecimals'' = Inr decimals"
    by auto
  from ln sn have "longName = (if truthy l then l else shortName)"
    by (simp split: if_splits)
  with sn l rs rl rd show ?thesis by blast
qed







text \<open>
  The guard of \<^verbatim>\<open>dayLowPrice\<close> reads \<^verbatim>\<open>regularMarketDayHigh\<close>: a day low supplied without a
  day high is dropped, and a day high supplied without a day low makes the whole call fail.
\<close>

lemma resolveQuote_dayLow_guard:
  "resolveQuote
      (canned ''{}'' (example_quote [(''regularMarketDayLow'', Obj [(''raw'', Num (Fin (243 / 2)))])]))
      ''AAPL''
     = Inr (example_quote_record Null Null)
   \<and> resolveQuote
      (canned ''{}'' (example_quote [(''regularMarketDayHigh'', Obj [(''raw'', Num (Fin (249 / 2)))])]))
      ''AAPL''
     = Inl TypeError"
  by (simp add: resolveQuote_def canned_def example_quote_response
        example_quote_low_only example_quote_high_only)

section \<open>Shape of a successful profile\<close>

lemma beta_fixed: "fixed_digits (5404319552844595 / 4503599627370496) 4 = ''1.2000''"
  by (simp add: fixed_eval)

lemma yield_times_100:
  "js_mul (Fin (7493989779944505 / 1152921504606846976)) (Fin 100)
     = Fin (5854679515581645 / 9007199254740992)"
  by (simp add: num_eval)

lemma yield_fixed: "fixed_digits (5854679515581645 / 9007199254740992) 2 = ''0.65''"
  by (simp add: fixed_eval)

lemma example_detail_decimals: "priceHint_decimals example_detail = Inr (Num (Fin 4))"
  by (simp add: priceHint_decimals_def example_detail_def)

lemma example_detail_eval:
  "summaryDetail_record rt example_detail (Num (Fin 4)) = Inr example_detail_record"
  by (simp add: summaryDetail_record_def example_detail_def getRawValText_def percent_or_null_def
        js_times_def yield_times_100 Number_toFixed_def beta_fixed yield_fixed obj_lit_def
        example_detail_record_def)

lemma example_company_eval:
  "profile_of_response rt False (example_profile [(''summaryProfile'', example_summaryProfile)])
     = Inr example_company_record"
proof -
  have "summaryProfile_record rt example_summaryProfile =
      Inr (Obj [(''address'', Str ''1 Main St, Springfield 00000, USA''),
             (''phone'', Str ''555 0100''),
             (''website'', Undefined),
             (''industry'', Undefined),
             (''sector'', Str ''Technology''),
             (''description'', Undefined),
             (''fullTimeEmployees'', Undefined)])"
    by (simp add: summaryProfile_record_def example_summaryProfile_def obj_lit_def)
  then show ?thesis
    unfolding profile_of_response_def
    by (simp add: example_profile_def example_detail_decimals example_detail_eval obj_lit_def
          example_company_record_def)
qed


lemma example_company_resolves:
  "resolveProfile (canned ''{}'' (example_profile [(''summaryProfile'', example_summaryProfile)])) ''ACME''
     = Inr example_company_record"
  by (simp add: resolveProfile_def canned_def startsWith_caret_def example_company_eval)


lemma resolveProfile_Inr:
  assumes "resolveProfile rt symbol = Inr r"
  shows "\<exists>resp. fetched rt (profile_url symbol (profile_modules (startsWith_caret symbol))) = Inr resp
           \<and> profile_of_response rt (startsWith_caret symbol) resp = Inr r"
  using assms by (auto simp: resolveProfile_def fetched_def andThen_eq_Inr Let_def)

lemma profile_of_response_Inr:
  assumes "profile_of_response rt isIndex resp = Inr r"
  shows "\<exists>result detailResult decimals summaryDetail summaryProfile components.
           payload resp ''quoteSummary'' = Inr result
         \<and> get_prop result ''summaryDetail'' = Inr detailResult
         \<and> priceHint_decimals detailResult = Inr decimals
         \<and> summaryDetail_record rt detailResult decimals = Inr summaryDetail
         \<and> (isIndex \<longrightarrow> summaryProfile = Null
               \<and> (\<exists>c. get_prop result ''components'' = Inr c \<and> get_prop c ''components'' = Inr components))
         \<and> (\<not> isIndex \<longrightarrow> components = Null
               \<and> (\<exists>profileResult. get_prop result ''summaryProfile'' = Inr profileResult
                     \<and> summaryProfile_record rt profileResult = Inr summaryProfile))
         \<and> r = Obj [(''summaryProfile'', summaryProfile),
                     (''summaryDetail'', summaryDetail),
                     (''components'', components)]"
  using assms
  by (cases isIndex)
     (auto simp: profile_of_response_def payload_def andThen_eq_Inr obj_lit_def
        throw_new_Error_not_Inr split: if_splits)

lemma summaryProfile_record_shape:
  assumes "summaryProfile_record rt profileResult = Inr sp"
  shows "\<exists>a2v address2 a1v address1 cv city zv zip cov country phone website industry sector
            description fullTimeEmployees.
           get_prop profileResult ''address2'' = Inr a2v
         \<and> (if truthy a2v
              then andThen (get_prop profileResult ''address2'') (\<lambda>a'.
                   andThen (ToString rt a') (\<lambda>s. Inr (s @ '', '')))
              else Inr []) = Inr address2
         \<and> get_prop profileResult ''address1'' = Inr a1v \<and> ToString rt a1v = Inr address1
         \<and> get_prop profileResult ''city'' = Inr cv \<and> ToString rt cv = Inr city
         \<and> get_prop profileResult ''zip'' = Inr zv \<and> ToString rt zv = Inr zip
         \<and> get_prop profileResult ''country'' = Inr cov \<and> ToString rt cov = Inr country
         \<and> get_prop profileResult ''phone'' = Inr phone
         \<and> get_prop profileResult ''website'' = Inr website
         \<and> get_prop profileResult ''industry'' = Inr industry
         \<and> get_prop profileResult ''sector'' = Inr sector
         \<and> get_prop profileResult ''longBusinessSummary'' = Inr description
         \<and> get_prop profileResult ''fullTimeEmployees'' = Inr fullTimeEmployees
         \<and> sp = Obj
             [(''address'', Str (address1 @ '', '' @ address2 @ city @ '' '' @ zip @ '', '' @ country)),
              (''phone'', phone),
              (''website'', website),
              (''industry'', industry),
              (''sector'', sector),
              (''description'', description),
              (''fullTimeEmployees'', fullTimeEmployees)]"
proof -
  from assms obtain a2v address2 where a2v: "get_prop profileResult ''address2'' = Inr a2v"
    and address2: "(if truthy a2v
              then andThen (get_prop profileResult ''address2'') (\<lambda>a'.
                   andThen (ToString rt a') (\<lambda>s. Inr (s @ '', '')))
              else Inr []) = Inr address2"
    and rest: "andThen (andThen (get_prop profileResult ''address1'') (ToString rt)) (\<lambda>address1.
     andThen (andThen (get_prop profileResult ''city'') (ToString rt)) (\<lambda>city.
     andThen (andThen (get_prop profileResult ''zip'') (ToString rt)) (\<lambda>zip.
     andThen (andThen (get_prop profileResult ''country'') (ToString rt)) (\<lambda>country.
     andThen (get_prop profileResult ''phone'') (\<lambda>phone.
     andThen (get_prop profileResult ''website'') (\<lambda>website.
     andThen (get_prop profileResult ''industry'') (\<lambda>industry.
     andThen (get_prop profileResult ''sector'') (\<lambda>sector.
     andThen (get_prop profileResult ''longBusinessSummary'') (\<lambda>description.
     andThen (get_prop profileResult ''fullTimeEmployees'') (\<lambda>fullTimeEmployees.
       Inr (obj_lit
         [(''address'', Str (address1 @ '', '' @ address2 @ city @ '' '' @ zip @ '', '' @ country)),
          (''phone'', phone),
          (''website'', website),
          (''industry'', industry),
          (''sector'', sector),
          (''description'', description),
          (''fullTimeEmployees'', fullTimeEmployees)]))))))))))) = Inr sp"
    unfolding summaryProfile_record_def
    by (subst (asm) andThen_eq_Inr, subst (asm) andThen_eq_Inr) blast
  from rest show ?thesis
    unfolding andThen_eq_Inr
    by (elim exE conjE) (simp add: obj_lit_def a2v address2)
qed



section \<open>The zero close and the empty yield, evaluated\<close>

lemma sub_105_0: "js_sub (Fin 105) (Fin 0) = Fin 105"
  by (simp add: num_eval)

lemma pct_105_0: "js_mul (js_div (Fin 105) (Fin 0)) (Fin 100) = PosInf"
  by (simp add: js_div_def js_mul_def is_zero_def)

lemma example_zero_response:
  "chart_of_response rt example_zero_chart = Inr example_zero_record"
  unfolding chart_of_response_def
  by (simp add: example_zero_chart_def chart_record_def chart_exchange_def js_minus_def
        js_divide_def js_times_def sub_105_0 pct_105_0 ms_1000
        Number_toFixed_def new_Date_def obj_lit_def example_zero_record_def)


section \<open>The claims\<close>

text \<open>
  The decimal count is outside the range \<^verbatim>\<open>toFixed\<close> accepts: \<^verbatim>\<open>getRawValText({raw: 1}, 101)\<close>
  throws a RangeError instead of returning a text with 101 decimals.
\<close>

theorem getRawValText_digits_counterexample:
  "getRawValText (canned [] Null) (Obj [(''raw'', Num (Fin 1))]) (Num (Fin 101)) = Inl RangeError"
  by (simp add: getRawValText_def Number_toFixed_def)

text \<open>
  C1 (as amended). \<^verbatim>\<open>getRawValText\<close>: when the input is falsy or its \<^verbatim>\<open>raw\<close> is not a
  number, the result is \<^verbatim>\<open>null\<close>; when \<^verbatim>\<open>raw\<close> is a finite number of magnitude below
  \<open>10^21\<close> and the decimal count \<open>P\<close> is an integer from 0 to 100, the result is a text
  with exactly \<open>P\<close> digits after the decimal point (no point for \<open>P = 0\<close>) whose value is
  within half a unit of the last digit of \<^verbatim>\<open>raw\<close>; when the decimals argument is not a
  number, the result is the bare number \<^verbatim>\<open>raw\<close>. An absent \<^verbatim>\<open>priceHint\<close> resolves to the
  precision 2.
\<close>

theorem getRawValText_contract:
  "(\<not> truthy val \<or> (\<forall>x. get_prop val ''raw'' \<noteq> Inr (Num x))
      \<longrightarrow> getRawValText rt val decimals = Inr Null)
   \<and> (truthy val \<and> get_prop val ''raw'' = Inr (Num (Fin q)) \<and> \<bar>q\<bar> < 10 ^ 21 \<and> P \<le> 100
      \<longrightarrow> (\<exists>s. getRawValText rt val (Num (Fin (of_nat P))) = Inr (Str s) \<and> has_decimals s P
                \<and> \<bar>text_value s - q\<bar> \<le> 1 / (2 * 10 ^ P)))
   \<and> (truthy val \<and> get_prop val ''raw'' = Inr (Num x) \<and> \<not> is_number decimals
      \<longrightarrow> getRawValText rt val decimals = Inr (Num x))
   \<and> (get_prop obj ''priceHint'' = Inr Undefined \<longrightarrow> priceHint_decimals obj = Inr (Num (Fin 2)))"
proof (intro conjI impI)
  assume "\<not> truthy val \<or> (\<forall>x. get_prop val ''raw'' \<noteq> Inr (Num x))"
  then show "getRawValText rt val decimals = Inr Null"
  proof
    assume "\<not> truthy val"
    then show ?thesis by (simp add: getRawValText_def)
  next
    assume a: "\<forall>x. get_prop val ''raw'' \<noteq> Inr (Num x)"
    show ?thesis
    proof (cases "truthy val")
      case False
      then show ?thesis by (simp add: getRawValText_def)
    next
      case True
      show ?thesis
      proof (cases "get_prop val ''raw''")
        case (Inl e)
        with True show ?thesis by (cases val) (simp_all add: getRawValText_def)
      next
        case (Inr v)
        with a have "\<forall>x. v \<noteq> Num x" by simp
        with True Inr show ?thesis by (cases v) (simp_all add: getRawValText_def)
      qed
    qed
  qed
next
  assume a: "truthy val \<and> get_prop val ''raw'' = Inr (Num (Fin q)) \<and> \<bar>q\<bar> < 10 ^ 21 \<and> P \<le> 100"
  then obtain s where s: "Number_toFixed rt (Fin q) (Fin (of_nat P)) = Inr s" "has_decimals s P"
      "\<bar>text_value s - q\<bar> \<le> 1 / (2 * 10 ^ P)"
    using toFixed_finite [of q P rt] by blast
  show "\<exists>s. getRawValText rt val (Num (Fin (of_nat P))) = Inr (Str s) \<and> has_decimals s P
            \<and> \<bar>text_value s - q\<bar> \<le> 1 / (2 * 10 ^ P)"
    using a s by (intro exI [of _ s]) (simp add: getRawValText_def)
next
  assume "truthy val \<and> get_prop val ''raw'' = Inr (Num x) \<and> \<not> is_number decimals"
  then show "getRawValText rt val decimals = Inr (Num x)"
    by (cases decimals) (simp_all add: getRawValText_def)
next
  assume "get_prop obj ''priceHint'' = Inr Undefined"
  then show "priceHint_decimals obj = Inr (Num (Fin 2))"
    by (simp add: priceHint_decimals_def)
qed

theorem getRawValText_contract_witness:
  "getRawValText (canned [] Null) Undefined (Num (Fin 2)) = Inr Null
   \<and> getRawValText (canned [] Null) (Obj [(''fmt'', Str ''1.5'')]) (Num (Fin 2)) = Inr Null
   \<and> (\<exists>s. getRawValText (canned [] Null) (Obj [(''raw'', Num (Fin (3 / 2)))]) (Num (Fin 2)) = Inr (Str s)
          \<and> has_decimals s 2 \<and> \<bar>text_value s - 3 / 2\<bar> \<le> 1 / 200)
   \<and> getRawValText (canned [] Null) (Obj [(''raw'', Num (Fin (3 / 2)))]) Undefined = Inr (Num (Fin (3 / 2)))
   \<and> priceHint_decimals (Obj [(''currency'', Str ''USD'')]) = Inr (Num (Fin 2))"
proof -
  let ?rt = "canned [] Null"
  let ?v = "Obj [(''raw'', Num (Fin (3 / 2)))]"
  have a: "getRawValText ?rt Undefined (Num (Fin 2)) = Inr Null"
    using getRawValText_contract [where val = Undefined and rt = ?rt and decimals = "Num (Fin 2)"]
    by simp
  have b: "getRawValText ?rt (Obj [(''fmt'', Str ''1.5'')]) (Num (Fin 2)) = Inr Null"
    using getRawValText_contract [where val = "Obj [(''fmt'', Str ''1.5'')]" and rt = ?rt
        and decimals = "Num (Fin 2)"]
    by simp
  have c: "\<exists>s. getRawValText ?rt ?v (Num (Fin 2)) = Inr (Str s)
          \<and> has_decimals s 2 \<and> \<bar>text_value s - 3 / 2\<bar> \<le> 1 / 200"
    using getRawValText_contract [where val = ?v and rt = ?rt and q = "3 / 2" and P = 2]
    by simp
  have d: "getRawValText ?rt ?v Undefined = Inr (Num (Fin (3 / 2)))"
    using getRawValText_contract [where val = ?v and rt = ?rt and x = "Fin (3 / 2)"
        and decimals = Undefined]
    by simp
  have e: "priceHint_decimals (Obj [(''currency'', Str ''USD'')]) = Inr (Num (Fin 2))"
    using getRawValText_contract [where obj = "Obj [(''currency'', Str ''USD'')]"]
    by simp
  from a b c d e show ?thesis by blast
qed

text \<open>
  C2. A successful \<^verbatim>\<open>resolveChart\<close> returns as many bars as the response has timestamps;
  the bar at each index carries that timestamp times 1000 (exactly, for an integer
  timestamp whose product stays below \<open>2^53\<close>) and, for each of the five series, the
  entry at that index, which is \<^verbatim>\<open>undefined\<close> when the series is too short. Whatever the
  lengths of the five series, the bars of numeric timestamps are always produced.
\<close>

theorem resolveChart_timeseries:
  "(resolveChart rt symbol range' interval = Inr r \<longrightarrow>
      (\<exists>resp result quote ts bars.
          fetched rt (chart_url symbol range' interval) = Inr resp
        \<and> payload resp ''chart'' = Inr result
        \<and> chart_series result = Inr quote
        \<and> get_prop result ''timestamp'' = Inr (Arr ts)
        \<and> get_prop r ''timeseries'' = Inr (Arr bars)
        \<and> length bars = length ts
        \<and> (\<forall>i<length ts.
               get_prop (bars ! i) ''timestamp'' = js_times rt (ts ! i) (Num (Fin 1000))
             \<and> (\<forall>n. ts ! i = Num n \<longrightarrow>
                   get_prop (bars ! i) ''timestamp'' = Inr (Num (js_mul n (Fin 1000))))
             \<and> (\<forall>z. ts ! i = Num (Fin (of_int z)) \<and> \<bar>z * 1000\<bar> < 2 ^ 53 \<longrightarrow>
                   get_prop (bars ! i) ''timestamp'' = Inr (Num (Fin (of_int (z * 1000)))))
             \<and> (\<forall>k\<in>set series_keys. \<exists>a.
                   get_prop quote k = Inr a
                 \<and> get_prop (bars ! i) k = get_index a i
                 \<and> (\<forall>xs. a = Arr xs \<and> length xs \<le> i \<longrightarrow> get_prop (bars ! i) k = Inr Undefined)))))
   \<and> ((\<forall>k\<in>set series_keys. \<exists>xs. get_prop series k = Inr (Arr xs))
        \<and> (\<forall>t\<in>set stamps. is_number t)
      \<longrightarrow> (\<exists>bars. array_map (Arr stamps) (chart_bar rt series) = Inr (Arr bars)))"
proof (intro conjI impI)
  assume ok: "resolveChart rt symbol range' interval = Inr r"
  from resolveChart_Inr [OF ok] obtain resp
    where resp: "fetched rt (chart_url symbol range' interval) = Inr resp"
      and cr: "chart_of_response rt resp = Inr r" by blast
  from chart_of_response_Inr [OF cr] obtain result meta quote
    where result: "payload resp ''chart'' = Inr result"
      and quote: "chart_series result = Inr quote"
      and rec: "chart_record rt result meta quote = Inr r" by blast
  from chart_record_shape [OF rec] obtain timestamps timeseries
    where tsp: "get_prop result ''timestamp'' = Inr timestamps"
      and am: "array_map timestamps (chart_bar rt quote) = Inr timeseries"
      and r: "get_prop r ''timeseries'' = Inr timeseries"
    by auto
  from array_map_Inr [OF am] obtain ts bars
    where ts: "timestamps = Arr ts" and bars: "timeseries = Arr bars"
      and len: "length bars = length ts"
      and each: "\<forall>j<length ts. chart_bar rt quote (ts ! j) j = Inr (bars ! j)" by blast
  have "\<forall>i<length ts.
               get_prop (bars ! i) ''timestamp'' = js_times rt (ts ! i) (Num (Fin 1000))
             \<and> (\<forall>n. ts ! i = Num n \<longrightarrow>
                   get_prop (bars ! i) ''timestamp'' = Inr (Num (js_mul n (Fin 1000))))
             \<and> (\<forall>z. ts ! i = Num (Fin (of_int z)) \<and> \<bar>z * 1000\<bar> < 2 ^ 53 \<longrightarrow>
                   get_prop (bars ! i) ''timestamp'' = Inr (Num (Fin (of_int (z * 1000)))))
             \<and> (\<forall>k\<in>set series_keys. \<exists>a.
                   get_prop quote k = Inr a
                 \<and> get_prop (bars ! i) k = get_index a i
                 \<and> (\<forall>xs. a = Arr xs \<and> length xs \<le> i \<longrightarrow> get_prop (bars ! i) k = Inr Undefined))"
  proof (intro allI impI)
    fix i assume i: "i < length ts"
    with each have bar: "chart_bar rt quote (ts ! i) i = Inr (bars ! i)" by simp
    note sh = chart_bar_shape [OF bar]
    have t: "get_prop (bars ! i) ''timestamp'' = js_times rt (ts ! i) (Num (Fin 1000))"
      using sh by simp
    have n: "\<forall>n. ts ! i = Num n \<longrightarrow>
        get_prop (bars ! i) ''timestamp'' = Inr (Num (js_mul n (Fin 1000)))"
      using t by (simp add: js_times_def)
    have z: "\<forall>z. ts ! i = Num (Fin (of_int z)) \<and> \<bar>z * 1000\<bar> < 2 ^ 53 \<longrightarrow>
        get_prop (bars ! i) ''timestamp'' = Inr (Num (Fin (of_int (z * 1000))))"
    proof (intro allI impI)
      fix z assume a: "ts ! i = Num (Fin (of_int z)) \<and> \<bar>z * 1000\<bar> < 2 ^ 53"
      then have "js_mul (Fin (of_int z)) (Fin (of_int 1000)) = Fin (of_int (z * 1000))"
        by (intro js_mul_int) simp_all
      with a n show "get_prop (bars ! i) ''timestamp'' = Inr (Num (Fin (of_int (z * 1000))))"
        by simp
    qed
    have k: "\<forall>k\<in>set series_keys. \<exists>a.
                   get_prop quote k = Inr a
                 \<and> get_prop (bars ! i) k = get_index a i
                 \<and> (\<forall>xs. a = Arr xs \<and> length xs \<le> i \<longrightarrow> get_prop (bars ! i) k = Inr Undefined)"
    proof
      fix k assume "k \<in> set series_keys"
      with sh obtain a where a: "get_prop quote k = Inr a" "get_prop (bars ! i) k = get_index a i"
        by blast
      then show "\<exists>a. get_prop quote k = Inr a
                 \<and> get_prop (bars ! i) k = get_index a i
                 \<and> (\<forall>xs. a = Arr xs \<and> length xs \<le> i \<longrightarrow> get_prop (bars ! i) k = Inr Undefined)"
        by (intro exI [of _ a]) auto
    qed
    from t n z k
    show "get_prop (bars ! i) ''timestamp'' = js_times rt (ts ! i) (Num (Fin 1000))
             \<and> (\<forall>n. ts ! i = Num n \<longrightarrow>
                   get_prop (bars ! i) ''timestamp'' = Inr (Num (js_mul n (Fin 1000))))
             \<and> (\<forall>z. ts ! i = Num (Fin (of_int z)) \<and> \<bar>z * 1000\<bar> < 2 ^ 53 \<longrightarrow>
                   get_prop (bars ! i) ''timestamp'' = Inr (Num (Fin (of_int (z * 1000)))))
             \<and> (\<forall>k\<in>set series_keys. \<exists>a.
                   get_prop quote k = Inr a
                 \<and> get_prop (bars ! i) k = get_index a i
                 \<and> (\<forall>xs. a = Arr xs \<and> length xs \<le> i \<longrightarrow> get_prop (bars ! i) k = Inr Undefined))"
      by blast
  qed
  with resp result quote tsp r ts bars len
  show "\<exists>resp result quote ts bars.
          fetched rt (chart_url symbol range' interval) = Inr resp
        \<and> payload resp ''chart'' = Inr result
        \<and> chart_series result = Inr quote
        \<and> get_prop result ''timestamp'' = Inr (Arr ts)
        \<and> get_prop r ''timeseries'' = Inr (Arr bars)
        \<and> length bars = length ts
        \<and> (\<forall>i<length ts.
               get_prop (bars ! i) ''timestamp'' = js_times rt (ts ! i) (Num (Fin 1000))
             \<and> (\<forall>n. ts ! i = Num n \<longrightarrow>
                   get_prop (bars ! i) ''timestamp'' = Inr (Num (js_mul n (Fin 1000))))
             \<and> (\<forall>z. ts ! i = Num (Fin (of_int z)) \<and> \<bar>z * 1000\<bar> < 2 ^ 53 \<longrightarrow>
                   get_prop (bars ! i) ''timestamp'' = Inr (Num (Fin (of_int (z * 1000)))))
             \<and> (\<forall>k\<in>set series_keys. \<exists>a.
                   get_prop quote k = Inr a
                 \<and> get_prop (bars ! i) k = get_index a i
                 \<and> (\<forall>xs. a = Arr xs \<and> length xs \<le> i \<longrightarrow> get_prop (bars ! i) k = Inr Undefined)))"
    by blast
next
  assume a: "(\<forall>k\<in>set series_keys. \<exists>xs. get_prop series k = Inr (Arr xs))
        \<and> (\<forall>t\<in>set stamps. is_number t)"
  have "\<forall>x\<in>set stamps. \<forall>j. \<exists>y. chart_bar rt series x j = Inr y"
  proof (intro ballI allI)
    fix x j assume "x \<in> set stamps"
    with a obtain n where "x = Num n" by (cases x) auto
    with a chart_bar_total [of series rt n j] show "\<exists>y. chart_bar rt series x j = Inr y"
      by blast
  qed
  from map_idx_total [OF this, of 0]
  show "\<exists>bars. array_map (Arr stamps) (chart_bar rt series) = Inr (Arr bars)"
    by auto
qed

theorem resolveChart_timeseries_witness:
  "resolveChart (canned ''{}'' example_chart) ''AAPL'' ''1d'' ''5m'' = Inr example_chart_record
   \<and> (\<exists>resp result quote ts bars.
          fetched (canned ''{}'' example_chart) (chart_url ''AAPL'' ''1d'' ''5m'') = Inr resp
        \<and> payload resp ''chart'' = Inr result
        \<and> chart_series result = Inr quote
        \<and> get_prop result ''timestamp'' = Inr (Arr ts)
        \<and> get_prop example_chart_record ''timeseries'' = Inr (Arr bars)
        \<and> length bars = length ts
        \<and> (\<forall>i<length ts.
               get_prop (bars ! i) ''timestamp'' = js_times (canned ''{}'' example_chart) (ts ! i) (Num (Fin 1000))
             \<and> (\<forall>n. ts ! i = Num n \<longrightarrow>
                   get_prop (bars ! i) ''timestamp'' = Inr (Num (js_mul n (Fin 1000))))
             \<and> (\<forall>z. ts ! i = Num (Fin (of_int z)) \<and> \<bar>z * 1000\<bar> < 2 ^ 53 \<longrightarrow>
                   get_prop (bars ! i) ''timestamp'' = Inr (Num (Fin (of_int (z * 1000)))))
             \<and> (\<forall>k\<in>set series_keys. \<exists>a.
                   get_prop quote k = Inr a
                 \<and> get_prop (bars ! i) k = get_index a i
                 \<and> (\<forall>xs. a = Arr xs \<and> length xs \<le> i \<longrightarrow> get_prop (bars ! i) k = Inr Undefined))))
   \<and> (\<exists>bars. array_map (Arr [Num (Fin 1599999000), Num (Fin 1599999300), Num (Fin 1599999600)])
          (chart_bar (canned ''{}'' example_chart) example_series) = Inr (Arr bars))"
proof -
  let ?rt = "canned ''{}'' example_chart"
  let ?stamps = "[Num (Fin 1599999000), Num (Fin 1599999300), Num (Fin 1599999600)]"
  note inst = resolveChart_timeseries [of ?rt "''AAPL''" "''1d''" "''5m''" example_chart_record
      example_series ?stamps]
  have h: "resolveChart ?rt ''AAPL'' ''1d'' ''5m'' = Inr example_chart_record"
    by (rule example_chart_resolves)
  have g: "(\<forall>k\<in>set series_keys. \<exists>xs. get_prop example_series k = Inr (Arr xs))
        \<and> (\<forall>t\<in>set ?stamps. is_number t)"
    by (simp add: series_keys_def example_series_def)
  from inst [THEN conjunct1, THEN mp, OF h] inst [THEN conjunct2, THEN mp, OF g] h
  show ?thesis by (intro conjI)
qed

text \<open>
  With \<^verbatim>\<open>previousClose\<close> zero the call succeeds and \<^verbatim>\<open>priceChangePercentage\<close> is the text
  \<^verbatim>\<open>"Infinity"\<close>, which has no decimals.
\<close>

theorem resolveChart_zero_close_counterexample:
  "resolveChart (canned ''{}'' example_zero_chart) ''NEWCO'' ''1d'' ''5m'' = Inr example_zero_record
   \<and> get_prop example_zero_record ''priceChangePercentage'' = Inr (Str ''Infinity'')
   \<and> \<not> has_decimals ''Infinity'' 2"
  by (simp add: resolveChart_def canned_def example_zero_response)
     (simp add: example_zero_record_def has_decimals_def)

text \<open>
  C6 (as amended). In a successful \<^verbatim>\<open>resolveChart\<close>, \<^verbatim>\<open>priceChange\<close> is
  \<^verbatim>\<open>regularMarketPrice - previousClose\<close> and \<^verbatim>\<open>priceChangePercentage\<close> is that difference
  divided by \<^verbatim>\<open>previousClose\<close>, times 100, through \<^verbatim>\<open>toFixed(2)\<close>; this is a text with
  exactly two decimals whenever the percentage is finite and below \<open>10^21\<close> in magnitude.
  With 105 and 100 the two fields are 5 and \<^verbatim>\<open>"5.00"\<close>.
\<close>

theorem resolveChart_price_change:
  assumes "resolveChart rt symbol range' interval = Inr r"
  shows "\<exists>resp result meta price prev.
        fetched rt (chart_url symbol range' interval) = Inr resp
      \<and> payload resp ''chart'' = Inr result
      \<and> get_prop result ''meta'' = Inr meta
      \<and> get_prop meta ''regularMarketPrice'' = Inr price
      \<and> get_prop meta ''previousClose'' = Inr prev
      \<and> get_prop r ''priceChange'' = js_minus rt price prev
      \<and> get_prop r ''priceChangePercentage'' =
          andThen (js_minus rt price prev) (\<lambda>d.
          andThen (js_divide rt d prev) (\<lambda>q.
          andThen (js_times rt q (Num (Fin 100))) (\<lambda>p. call_toFixed rt p (Num (Fin 2)))))
      \<and> (\<forall>a b. price = Num a \<and> prev = Num b \<longrightarrow>
            get_prop r ''priceChange'' = Inr (Num (js_sub a b))
          \<and> (\<exists>s. Number_toFixed rt (js_mul (js_div (js_sub a b) b) (Fin 100)) (Fin 2) = Inr s
                \<and> get_prop r ''priceChangePercentage'' = Inr (Str s))
          \<and> (\<forall>q. js_mul (js_div (js_sub a b) b) (Fin 100) = Fin q \<and> \<bar>q\<bar> < 10 ^ 21 \<longrightarrow>
                (\<exists>s. get_prop r ''priceChangePercentage'' = Inr (Str s) \<and> has_decimals s 2
                    \<and> \<bar>text_value s - q\<bar> \<le> 1 / 200)))
      \<and> (price = Num (Fin 105) \<and> prev = Num (Fin 100) \<longrightarrow>
            get_prop r ''priceChange'' = Inr (Num (Fin 5))
          \<and> get_prop r ''priceChangePercentage'' = Inr (Str ''5.00''))"
proof -
  from resolveChart_Inr [OF assms] obtain resp
    where resp: "fetched rt (chart_url symbol range' interval) = Inr resp"
      and cr: "chart_of_response rt resp = Inr r" by blast
  from chart_of_response_Inr [OF cr] obtain result meta quote
    where result: "payload resp ''chart'' = Inr result"
      and meta: "get_prop result ''meta'' = Inr meta"
      and rec: "chart_record rt result meta quote = Inr r" by blast
  from chart_record_shape [OF rec] obtain price prev change diff ratio percent pcp
    where price: "get_prop meta ''regularMarketPrice'' = Inr price"
      and prev: "get_prop meta ''previousClose'' = Inr prev"
      and change: "js_minus rt price prev = Inr change"
      and diff: "js_minus rt price prev = Inr diff"
      and ratio: "js_divide rt diff prev = Inr ratio"
      and percent: "js_times rt ratio (Num (Fin 100)) = Inr percent"
      and pcp: "call_toFixed rt percent (Num (Fin 2)) = Inr pcp"
      and rc: "get_prop r ''priceChange'' = Inr change"
      and rp: "get_prop r ''priceChangePercentage'' = Inr pcp"
    by auto
  have c1: "get_prop r ''priceChange'' = js_minus rt price prev"
    using rc change by simp
  have c2: "get_prop r ''priceChangePercentage'' =
          andThen (js_minus rt price prev) (\<lambda>d.
          andThen (js_divide rt d prev) (\<lambda>q.
          andThen (js_times rt q (Num (Fin 100))) (\<lambda>p. call_toFixed rt p (Num (Fin 2)))))"
    using rp diff ratio percent pcp by simp
  have c3: "\<forall>a b. price = Num a \<and> prev = Num b \<longrightarrow>
            get_prop r ''priceChange'' = Inr (Num (js_sub a b))
          \<and> (\<exists>s. Number_toFixed rt (js_mul (js_div (js_sub a b) b) (Fin 100)) (Fin 2) = Inr s
                \<and> get_prop r ''priceChangePercentage'' = Inr (Str s))
          \<and> (\<forall>q. js_mul (js_div (js_sub a b) b) (Fin 100) = Fin q \<and> \<bar>q\<bar> < 10 ^ 21 \<longrightarrow>
                (\<exists>s. get_prop r ''priceChangePercentage'' = Inr (Str s) \<and> has_decimals s 2
                    \<and> \<bar>text_value s - q\<bar> \<le> 1 / 200))"
  proof (intro allI impI)
    fix a b assume ab: "price = Num a \<and> prev = Num b"
    let ?p = "js_mul (js_div (js_sub a b) b) (Fin 100)"
    have pc: "get_prop r ''priceChange'' = Inr (Num (js_sub a b))"
      using c1 ab by (simp add: js_minus_def)
    have tf: "get_prop r ''priceChangePercentage'' = call_toFixed rt (Num ?p) (Num (Fin 2))"
      using c2 ab by (simp add: js_minus_def js_divide_def js_times_def)
    with rp obtain s where s: "Number_toFixed rt ?p (Fin 2) = Inr s" "pcp = Str s"
      by (auto simp: andThen_eq_Inr)
    have fin: "\<forall>q. ?p = Fin q \<and> \<bar>q\<bar> < 10 ^ 21 \<longrightarrow>
                (\<exists>s. get_prop r ''priceChangePercentage'' = Inr (Str s) \<and> has_decimals s 2
                    \<and> \<bar>text_value s - q\<bar> \<le> 1 / 200)"
    proof (intro allI impI)
      fix q assume q: "?p = Fin q \<and> \<bar>q\<bar> < 10 ^ 21"
      then have "\<exists>s. call_toFixed rt (Num (Fin q)) (Num (Fin 2)) = Inr (Str s) \<and> has_decimals s 2
           \<and> \<bar>text_value s - q\<bar> \<le> 1 / 200"
        by (intro toFixed_2_finite) simp
      with tf q show "\<exists>s. get_prop r ''priceChangePercentage'' = Inr (Str s) \<and> has_decimals s 2
                    \<and> \<bar>text_value s - q\<bar> \<le> 1 / 200"
        by simp
    qed
    have ex: "\<exists>s. Number_toFixed rt ?p (Fin 2) = Inr s
                \<and> get_prop r ''priceChangePercentage'' = Inr (Str s)"
      using s rp by simp
    from pc ex fin
    show "get_prop r ''priceChange'' = Inr (Num (js_sub a b))
          \<and> (\<exists>s. Number_toFixed rt ?p (Fin 2) = Inr s
                \<and> get_prop r ''priceChangePercentage'' = Inr (Str s))
          \<and> (\<forall>q. ?p = Fin q \<and> \<bar>q\<bar> < 10 ^ 21 \<longrightarrow>
                (\<exists>s. get_prop r ''priceChangePercentage'' = Inr (Str s) \<and> has_decimals s 2
                    \<and> \<bar>text_value s - q\<bar> \<le> 1 / 200))"
      by (intro conjI)
  qed
  have c4: "price = Num (Fin 105) \<and> prev = Num (Fin 100) \<longrightarrow>
            get_prop r ''priceChange'' = Inr (Num (Fin 5))
          \<and> get_prop r ''priceChangePercentage'' = Inr (Str ''5.00'')"
  proof
    assume a: "price = Num (Fin 105) \<and> prev = Num (Fin 100)"
    with c3 have "get_prop r ''priceChange'' = Inr (Num (js_sub (Fin 105) (Fin 100)))"
      and "\<exists>s. Number_toFixed rt (js_mul (js_div (js_sub (Fin 105) (Fin 100)) (Fin 100)) (Fin 100)) (Fin 2) = Inr s
                \<and> get_prop r ''priceChangePercentage'' = Inr (Str s)"
      by blast+
    then show "get_prop r ''priceChange'' = Inr (Num (Fin 5))
          \<and> get_prop r ''priceChangePercentage'' = Inr (Str ''5.00'')"
      by (auto simp: sub_105_100 pct_105_100 [unfolded sub_105_100] toFixed_5)
  qed
  from resp result meta price prev c1 c2 c3 c4 show ?thesis by blast
qed

theorem resolveChart_price_change_witness:
  "resolveChart (canned ''{}'' example_chart) ''AAPL'' ''1d'' ''5m'' = Inr example_chart_record
   \<and> (\<exists>resp result meta price prev.
        fetched (canned ''{}'' example_chart) (chart_url ''AAPL'' ''1d'' ''5m'') = Inr resp
      \<and> payload resp ''chart'' = Inr result
      \<and> get_prop result ''meta'' = Inr meta
      \<and> get_prop meta ''regularMarketPrice'' = Inr price
      \<and> get_prop meta ''previousClose'' = Inr prev
      \<and> get_prop example_chart_record ''priceChange'' = js_minus (canned ''{}'' example_chart) price prev
      \<and> price = Num (Fin 105) \<and> prev = Num (Fin 100)
      \<and> get_prop example_chart_record ''priceChange'' = Inr (Num (Fin 5))
      \<and> get_prop example_chart_record ''priceChangePercentage'' = Inr (Str ''5.00''))"
proof -
  let ?rt = "canned ''{}'' example_chart"
  have h: "resolveChart ?rt ''AAPL'' ''1d'' ''5m'' = Inr example_chart_record"
    by (rule example_chart_resolves)
  from resolveChart_price_change [OF h] obtain resp result meta price prev
    where f: "fetched ?rt (chart_url ''AAPL'' ''1d'' ''5m'') = Inr resp"
      and p: "payload resp ''chart'' = Inr result"
      and m: "get_prop result ''meta'' = Inr meta"
      and a: "get_prop meta ''regularMarketPrice'' = Inr price"
      and b: "get_prop meta ''previousClose'' = Inr prev"
      and c: "get_prop example_chart_record ''priceChange'' = js_minus ?rt price prev"
      and d: "price = Num (Fin 105) \<and> prev = Num (Fin 100) \<longrightarrow>
            get_prop example_chart_record ''priceChange'' = Inr (Num (Fin 5))
          \<and> get_prop example_chart_record ''priceChangePercentage'' = Inr (Str ''5.00'')"
    by blast
  from f have "resp = example_chart" by (simp add: fetched_def canned_def)
  with p have "result = example_chart_result" by (simp add: payload_def example_chart_def)
  with m have "meta = example_meta" by (simp add: example_chart_result_def)
  with a b have e: "price = Num (Fin 105) \<and> prev = Num (Fin 100)"
    by (simp add: example_meta_def)
  with d have "get_prop example_chart_record ''priceChange'' = Inr (Num (Fin 5))
          \<and> get_prop example_chart_record ''priceChangePercentage'' = Inr (Str ''5.00'')" by blast
  with h f p m a b c e show ?thesis by blast
qed

text \<open>
  C10. The literal returned by \<^verbatim>\<open>resolveChart\<close> writes the key \<^verbatim>\<open>exchange\<close> twice: the
  record has one \<^verbatim>\<open>exchange\<close> property, its value is the timezone and trading-period
  record, and the record does not depend on \<^verbatim>\<open>meta.exchangeName\<close> at all.
\<close>

theorem resolveChart_exchange_rebound:
  assumes "resolveChart rt symbol range' interval = Inr r"
  shows "\<exists>resp result meta quote timezone timezoneName period regular start end' fields.
        fetched rt (chart_url symbol range' interval) = Inr resp
      \<and> payload resp ''chart'' = Inr result
      \<and> get_prop result ''meta'' = Inr meta
      \<and> chart_series result = Inr quote
      \<and> get_prop meta ''timezone'' = Inr timezone
      \<and> get_prop meta ''exchangeTimezoneName'' = Inr timezoneName
      \<and> get_prop meta ''currentTradingPeriod'' = Inr period
      \<and> get_prop period ''regular'' = Inr regular
      \<and> get_prop regular ''start'' = Inr start
      \<and> get_prop regular ''end'' = Inr end'
      \<and> r = Obj fields
      \<and> map fst fields =
            [''symbol'', ''currency'', ''instrument'', ''exchange'', ''currentPrice'', ''previousClose'',
             ''priceChange'', ''priceChangePercentage'', ''updatedDateTime'', ''timeseries'']
      \<and> get_prop r ''exchange'' =
            Inr (Obj [(''timezone'', timezone), (''timezoneName'', timezoneName),
                      (''tradingPeriod'', Obj [(''start'', start), (''end'', end')])])
      \<and> (\<forall>meta'. (\<forall>k. k \<noteq> ''exchangeName'' \<longrightarrow> get_prop meta' k = get_prop meta k)
              \<longrightarrow> chart_record rt result meta' quote = Inr r)"
proof -
  from resolveChart_Inr [OF assms] obtain resp
    where resp: "fetched rt (chart_url symbol range' interval) = Inr resp"
      and cr: "chart_of_response rt resp = Inr r" by blast
  from chart_of_response_Inr [OF cr] obtain result meta quote
    where result: "payload resp ''chart'' = Inr result"
      and meta: "get_prop result ''meta'' = Inr meta"
      and quote: "chart_series result = Inr quote"
      and rec: "chart_record rt result meta quote = Inr r" by blast
  from chart_record_shape [OF rec] obtain exchange fields
    where ex: "chart_exchange meta = Inr exchange"
      and fields: "r = Obj fields"
      and keys: "map fst fields =
            [''symbol'', ''currency'', ''instrument'', ''exchange'', ''currentPrice'', ''previousClose'',
             ''priceChange'', ''priceChangePercentage'', ''updatedDateTime'', ''timeseries'']"
      and rex: "get_prop r ''exchange'' = Inr exchange"
    by auto
  from ex obtain timezone timezoneName period regular start end'
    where tz: "get_prop meta ''timezone'' = Inr timezone"
      and tzn: "get_prop meta ''exchangeTimezoneName'' = Inr timezoneName"
      and period: "get_prop meta ''currentTradingPeriod'' = Inr period"
      and regular: "get_prop period ''regular'' = Inr regular"
      and start: "get_prop regular ''start'' = Inr start"
      and end': "get_prop regular ''end'' = Inr end'"
      and exv: "exchange = Obj [(''timezone'', timezone), (''timezoneName'', timezoneName),
                      (''tradingPeriod'', Obj [(''start'', start), (''end'', end')])]"
    unfolding chart_exchange_def andThen_eq_Inr by (auto simp: obj_lit_def)
  have indep: "\<forall>meta'. (\<forall>k. k \<noteq> ''exchangeName'' \<longrightarrow> get_prop meta' k = get_prop meta k)
              \<longrightarrow> chart_record rt result meta' quote = Inr r"
  proof (intro allI impI)
    fix meta' assume "\<forall>k. k \<noteq> ''exchangeName'' \<longrightarrow> get_prop meta' k = get_prop meta k"
    then have "chart_record rt result meta' quote = chart_record rt result meta quote"
      by (intro chart_record_exchangeName_irrelevant) simp
    with rec show "chart_record rt result meta' quote = Inr r" by simp
  qed
  note rex' = rex [unfolded exv]
  show ?thesis
    by (intro exI conjI)
       (rule resp result meta quote tz tzn period regular start end' fields keys rex' indep)+
qed

theorem resolveChart_exchange_rebound_witness:
  "resolveChart (canned ''{}'' example_chart) ''AAPL'' ''1d'' ''5m'' = Inr example_chart_record
   \<and> get_prop example_meta ''exchangeName'' = Inr (Str ''NMS'')
   \<and> (\<exists>resp result meta quote timezone timezoneName period regular start end' fields.
        fetched (canned ''{}'' example_chart) (chart_url ''AAPL'' ''1d'' ''5m'') = Inr resp
      \<and> payload resp ''chart'' = Inr result
      \<and> get_prop result ''meta'' = Inr meta
      \<and> chart_series result = Inr quote
      \<and> get_prop meta ''timezone'' = Inr timezone
      \<and> get_prop meta ''exchangeTimezoneName'' = Inr timezoneName
      \<and> get_prop meta ''currentTradingPeriod'' = Inr period
      \<and> get_prop period ''regular'' = Inr regular
      \<and> get_prop regular ''start'' = Inr start
      \<and> get_prop regular ''end'' = Inr end'
      \<and> example_chart_record = Obj fields
      \<and> map fst fields =
            [''symbol'', ''currency'', ''instrument'', ''exchange'', ''currentPrice'', ''previousClose'',
             ''priceChange'', ''priceChangePercentage'', ''updatedDateTime'', ''timeseries'']
      \<and> get_prop example_chart_record ''exchange'' =
            Inr (Obj [(''timezone'', timezone), (''timezoneName'', timezoneName),
                      (''tradingPeriod'', Obj [(''start'', start), (''end'', end')])])
      \<and> (\<forall>meta'. (\<forall>k. k \<noteq> ''exchangeName'' \<longrightarrow> get_prop meta' k = get_prop meta k)
              \<longrightarrow> chart_record (canned ''{}'' example_chart) result meta' quote = Inr example_chart_record))"
proof -
  have h: "resolveChart (canned ''{}'' example_chart) ''AAPL'' ''1d'' ''5m'' = Inr example_chart_record"
    by (rule example_chart_resolves)
  have n: "get_prop example_meta ''exchangeName'' = Inr (Str ''NMS'')"
    by (simp add: example_meta_def)
  from h n resolveChart_exchange_rebound [OF h] show ?thesis by (intro conjI)
qed

text \<open>
  C3. When the fetched response has a truthy error envelope (\<^verbatim>\<open>chart.error\<close> for
  \<^verbatim>\<open>resolveChart\<close>, \<^verbatim>\<open>quoteSummary.error\<close> for \<^verbatim>\<open>resolveQuote\<close> and \<^verbatim>\<open>resolveProfile\<close>),
  the resolver fails, and with a textual \<^verbatim>\<open>description\<close> the failure is an Error whose
  message is that text.
\<close>

theorem error_envelope_fails:
  "(fetched rt (chart_url symbol range' interval) = Inr resp
      \<and> envelope_error resp ''chart'' = Inr err \<and> truthy err
    \<longrightarrow> (\<exists>e. resolveChart rt symbol range' interval = Inl e)
      \<and> (\<forall>d. get_prop err ''description'' = Inr (Str d)
            \<longrightarrow> resolveChart rt symbol range' interval = Inl (Error d)))
   \<and> (fetched rt (quote_url symbol) = Inr resp
      \<and> envelope_error resp ''quoteSummary'' = Inr err \<and> truthy err
    \<longrightarrow> (\<exists>e. resolveQuote rt symbol = Inl e)
      \<and> (\<forall>d. get_prop err ''description'' = Inr (Str d)
            \<longrightarrow> resolveQuote rt symbol = Inl (Error d)))
   \<and> (fetched rt (profile_url symbol (profile_modules (startsWith_caret symbol))) = Inr resp
      \<and> envelope_error resp ''quoteSummary'' = Inr err \<and> truthy err
    \<longrightarrow> (\<exists>e. resolveProfile rt symbol = Inl e)
      \<and> (\<forall>d. get_prop err ''description'' = Inr (Str d)
            \<longrightarrow> resolveProfile rt symbol = Inl (Error d)))"
proof (intro conjI impI)
  assume a: "fetched rt (chart_url symbol range' interval) = Inr resp
      \<and> envelope_error resp ''chart'' = Inr err \<and> truthy err"
  then have eq: "resolveChart rt symbol range' interval
      = andThen (get_prop err ''description'') (throw_new_Error rt)"
    by (simp add: resolveChart_fetched chart_of_response_error)
  from a envelope_throws [of err rt]
  show "\<exists>e. resolveChart rt symbol range' interval = Inl e"
    and "\<forall>d. get_prop err ''description'' = Inr (Str d)
            \<longrightarrow> resolveChart rt symbol range' interval = Inl (Error d)"
    unfolding eq by blast+
next
  assume a: "fetched rt (quote_url symbol) = Inr resp
      \<and> envelope_error resp ''quoteSummary'' = Inr err \<and> truthy err"
  then have eq: "resolveQuote rt symbol
      = andThen (get_prop err ''description'') (throw_new_Error rt)"
    by (simp add: resolveQuote_fetched quote_of_response_error)
  from a envelope_throws [of err rt]
  show "\<exists>e. resolveQuote rt symbol = Inl e"
    and "\<forall>d. get_prop err ''description'' = Inr (Str d)
            \<longrightarrow> resolveQuote rt symbol = Inl (Error d)"
    unfolding eq by blast+
next
  assume a: "fetched rt (profile_url symbol (profile_modules (startsWith_caret symbol))) = Inr resp
      \<and> envelope_error resp ''quoteSummary'' = Inr err \<and> truthy err"
  then have eq: "resolveProfile rt symbol
      = andThen (get_prop err ''description'') (throw_new_Error rt)"
    by (simp add: resolveProfile_fetched profile_of_response_error)
  from a envelope_throws [of err rt]
  show "\<exists>e. resolveProfile rt symbol = Inl e"
    and "\<forall>d. get_prop err ''description'' = Inr (Str d)
            \<longrightarrow> resolveProfile rt symbol = Inl (Error d)"
    unfolding eq by blast+
qed

theorem error_envelope_fails_witness:
  "resolveChart (canned ''{}'' (example_error ''chart'')) ''ZZZZ'' ''1d'' ''5m''
      = Inl (Error ''No data found, symbol may be delisted'')
   \<and> resolveQuote (canned ''{}'' (example_error ''quoteSummary'')) ''ZZZZ''
      = Inl (Error ''No data found, symbol may be delisted'')
   \<and> resolveProfile (canned ''{}'' (example_error ''quoteSummary'')) ''ZZZZ''
      = Inl (Error ''No data found, symbol may be delisted'')"
proof -
  let ?err = "Obj [(''code'', Str ''Not Found''),
                   (''description'', Str ''No data found, symbol may be delisted'')]"
  let ?d = "''No data found, symbol may be delisted''"
  have c: "fetched (canned ''{}'' (example_error ''chart'')) (chart_url ''ZZZZ'' ''1d'' ''5m'')
        = Inr (example_error ''chart'')
      \<and> envelope_error (example_error ''chart'') ''chart'' = Inr ?err \<and> truthy ?err"
    by (simp add: fetched_def canned_def envelope_error_def example_error_def)
  have q: "fetched (canned ''{}'' (example_error ''quoteSummary'')) (quote_url ''ZZZZ'')
        = Inr (example_error ''quoteSummary'')
      \<and> envelope_error (example_error ''quoteSummary'') ''quoteSummary'' = Inr ?err \<and> truthy ?err"
    by (simp add: fetched_def canned_def envelope_error_def example_error_def)
  have p: "fetched (canned ''{}'' (example_error ''quoteSummary''))
          (profile_url ''ZZZZ'' (profile_modules (startsWith_caret ''ZZZZ'')))
        = Inr (example_error ''quoteSummary'')
      \<and> envelope_error (example_error ''quoteSummary'') ''quoteSummary'' = Inr ?err \<and> truthy ?err"
    by (simp add: fetched_def canned_def envelope_error_def example_error_def)
  have d: "get_prop ?err ''description'' = Inr (Str ?d)" by simp
  note t1 = error_envelope_fails [where rt = "canned ''{}'' (example_error ''chart'')"
      and symbol = "''ZZZZ''" and range' = "''1d''" and interval = "''5m''"
      and resp = "example_error ''chart''" and err = ?err]
  note t2 = error_envelope_fails [where rt = "canned ''{}'' (example_error ''quoteSummary'')"
      and symbol = "''ZZZZ''" and resp = "example_error ''quoteSummary''" and err = ?err]
  from t1 [THEN conjunct1, THEN mp, OF c, THEN conjunct2, THEN spec, THEN mp, OF d]
       t2 [THEN conjunct2, THEN conjunct1, THEN mp, OF q, THEN conjunct2, THEN spec, THEN mp, OF d]
       t2 [THEN conjunct2, THEN conjunct2, THEN mp, OF p, THEN conjunct2, THEN spec, THEN mp, OF d]
  show ?thesis by (intro conjI)
qed




text \<open>
  C8. In the result of \<^verbatim>\<open>resolveQuote\<close>, \<^verbatim>\<open>longName\<close> is the provider's \<^verbatim>\<open>shortName\<close> when
  the provider omits \<^verbatim>\<open>longName\<close>, and the provider's \<^verbatim>\<open>longName\<close> when that is a non-empty
  text.
\<close>

theorem resolveQuote_longName:
  assumes "resolveQuote rt symbol = Inr r"
  shows "\<exists>resp result priceResult shortName longName.
        fetched rt (quote_url symbol) = Inr resp
      \<and> payload resp ''quoteSummary'' = Inr result
      \<and> get_prop result ''price'' = Inr priceResult
      \<and> get_prop priceResult ''shortName'' = Inr shortName
      \<and> get_prop priceResult ''longName'' = Inr longName
      \<and> get_prop r ''shortName'' = Inr shortName
      \<and> (longName = Undefined \<longrightarrow> get_prop r ''longName'' = Inr shortName)
      \<and> (\<forall>s. longName = Str s \<and> s \<noteq> [] \<longrightarrow> get_prop r ''longName'' = Inr (Str s))"
proof -
  from resolveQuote_Inr [OF assms] obtain resp
    where resp: "fetched rt (quote_url symbol) = Inr resp"
      and qr: "quote_of_response rt resp = Inr r" by blast
  from quote_of_response_Inr [OF qr] obtain result priceResult decimals
    where result: "payload resp ''quoteSummary'' = Inr result"
      and price: "get_prop result ''price'' = Inr priceResult"
      and rec: "quote_record rt priceResult decimals = Inr r" by blast
  from quote_record_names [OF rec] obtain shortName longName
    where sn: "get_prop priceResult ''shortName'' = Inr shortName"
      and ln: "get_prop priceResult ''longName'' = Inr longName"
      and rs: "get_prop r ''shortName'' = Inr shortName"
      and rl: "get_prop r ''longName'' = Inr (if truthy longName then longName else shortName)"
    by blast
  have a: "longName = Undefined \<longrightarrow> get_prop r ''longName'' = Inr shortName"
    using rl by simp
  have b: "\<forall>s. longName = Str s \<and> s \<noteq> [] \<longrightarrow> get_prop r ''longName'' = Inr (Str s)"
    using rl by simp
  show ?thesis
    by (intro exI conjI) (rule resp result price sn ln rs a b)+
qed

theorem resolveQuote_longName_witness:
  "resolveQuote (canned ''{}'' (example_quote [])) ''AAPL'' = Inr (example_quote_record Null Null)
   \<and> get_prop (Obj example_price) ''longName'' = Inr Undefined
   \<and> get_prop (example_quote_record Null Null) ''longName'' = Inr (Str ''Apple Inc.'')
   \<and> (\<exists>resp result priceResult shortName longName.
        fetched (canned ''{}'' (example_quote [])) (quote_url ''AAPL'') = Inr resp
      \<and> payload resp ''quoteSummary'' = Inr result
      \<and> get_prop result ''price'' = Inr priceResult
      \<and> get_prop priceResult ''shortName'' = Inr shortName
      \<and> get_prop priceResult ''longName'' = Inr longName
      \<and> get_prop (example_quote_record Null Null) ''shortName'' = Inr shortName
      \<and> (longName = Undefined \<longrightarrow> get_prop (example_quote_record Null Null) ''longName'' = Inr shortName)
      \<and> (\<forall>s. longName = Str s \<and> s \<noteq> [] \<longrightarrow>
            get_prop (example_quote_record Null Null) ''longName'' = Inr (Str s)))"
proof -
  have h: "resolveQuote (canned ''{}'' (example_quote [])) ''AAPL'' = Inr (example_quote_record Null Null)"
    by (simp add: resolveQuote_def canned_def example_quote_response example_quote_plain)
  have u: "get_prop (Obj example_price) ''longName'' = Inr Undefined"
    by (simp add: example_price_def)
  have l: "get_prop (example_quote_record Null Null) ''longName'' = Inr (Str ''Apple Inc.'')"
    by (simp add: example_quote_record_def)
  from h u l resolveQuote_longName [OF h] show ?thesis by (intro conjI)
qed






text \<open>
  C9. For a symbol that is not an index, the address of a successful \<^verbatim>\<open>resolveProfile\<close> is
  the text of \<^verbatim>\<open>address1\<close>, \<^verbatim>\<open>", "\<close>, then \<^verbatim>\<open>address2\<close> and \<^verbatim>\<open>", "\<close> only when \<^verbatim>\<open>address2\<close> is
  truthy, then city, a space, zip, \<^verbatim>\<open>", "\<close> and country.
\<close>

theorem resolveProfile_address:
  assumes "resolveProfile rt symbol = Inr r" and "\<not> startsWith_caret symbol"
  shows "\<exists>resp result profileResult sp a1v a2v cv zv cov address1 city zip country.
        fetched rt (profile_url symbol (profile_modules (startsWith_caret symbol))) = Inr resp
      \<and> payload resp ''quoteSummary'' = Inr result
      \<and> get_prop result ''summaryProfile'' = Inr profileResult
      \<and> get_prop r ''summaryProfile'' = Inr sp
      \<and> get_prop profileResult ''address1'' = Inr a1v \<and> ToString rt a1v = Inr address1
      \<and> get_prop profileResult ''address2'' = Inr a2v
      \<and> get_prop profileResult ''city'' = Inr cv \<and> ToString rt cv = Inr city
      \<and> get_prop profileResult ''zip'' = Inr zv \<and> ToString rt zv = Inr zip
      \<and> get_prop profileResult ''country'' = Inr cov \<and> ToString rt cov = Inr country
      \<and> (\<not> truthy a2v \<longrightarrow>
            get_prop sp ''address'' =
              Inr (Str (address1 @ '', '' @ city @ '' '' @ zip @ '', '' @ country)))
      \<and> (truthy a2v \<longrightarrow> (\<exists>address2. ToString rt a2v = Inr address2
            \<and> get_prop sp ''address'' =
                Inr (Str (address1 @ '', '' @ address2 @ '', '' @ city @ '' '' @ zip @ '', '' @ country))))"
proof -
  from resolveProfile_Inr [OF assms(1)] obtain resp
    where resp: "fetched rt (profile_url symbol (profile_modules (startsWith_caret symbol))) = Inr resp"
      and pr: "profile_of_response rt (startsWith_caret symbol) resp = Inr r" by blast
  from profile_of_response_Inr [OF pr] assms(2) obtain result detail sp comps profileResult
    where result: "payload resp ''quoteSummary'' = Inr result"
      and spr: "get_prop result ''summaryProfile'' = Inr profileResult"
      and rec: "summaryProfile_record rt profileResult = Inr sp"
      and r: "r = Obj [(''summaryProfile'', sp), (''summaryDetail'', detail), (''components'', comps)]"
    by blast
  have rsp: "get_prop r ''summaryProfile'' = Inr sp" using r by simp
  from summaryProfile_record_shape [OF rec] obtain a2v address2 a1v address1 cv city zv zip cov country
    where a2v: "get_prop profileResult ''address2'' = Inr a2v"
      and a2: "(if truthy a2v
              then andThen (get_prop profileResult ''address2'') (\<lambda>a'.
                   andThen (ToString rt a') (\<lambda>s. Inr (s @ '', '')))
              else Inr []) = Inr address2"
      and a1: "get_prop profileResult ''address1'' = Inr a1v" "ToString rt a1v = Inr address1"
      and c: "get_prop profileResult ''city'' = Inr cv" "ToString rt cv = Inr city"
      and z: "get_prop profileResult ''zip'' = Inr zv" "ToString rt zv = Inr zip"
      and co: "get_prop profileResult ''country'' = Inr cov" "ToString rt cov = Inr country"
      and addr: "get_prop sp ''address'' =
          Inr (Str (address1 @ '', '' @ address2 @ city @ '' '' @ zip @ '', '' @ country))"
    by auto
  have absent: "\<not> truthy a2v \<longrightarrow>
            get_prop sp ''address'' =
              Inr (Str (address1 @ '', '' @ city @ '' '' @ zip @ '', '' @ country))"
    using a2 addr by auto
  have present: "truthy a2v \<longrightarrow> (\<exists>address2. ToString rt a2v = Inr address2
            \<and> get_prop sp ''address'' =
                Inr (Str (address1 @ '', '' @ address2 @ '', '' @ city @ '' '' @ zip @ '', '' @ country)))"
    using a2 a2v addr by (auto simp: andThen_eq_Inr)
  show ?thesis
    by (rule exI [of _ resp], rule exI [of _ result], rule exI [of _ profileResult],
        rule exI [of _ sp], rule exI [of _ a1v], rule exI [of _ a2v], rule exI [of _ cv],
        rule exI [of _ zv], rule exI [of _ cov], rule exI [of _ address1], rule exI [of _ city],
        rule exI [of _ zip], rule exI [of _ country], intro conjI)
       (rule resp result spr rsp a1 a2v c z co absent present)+
qed

theorem resolveProfile_address_witness:
  "resolveProfile (canned ''{}'' (example_profile [(''summaryProfile'', example_summaryProfile)])) ''ACME''
      = Inr example_company_record
   \<and> \<not> startsWith_caret ''ACME''
   \<and> get_prop example_summaryProfile ''address2'' = Inr Undefined
   \<and> (\<exists>sp. get_prop example_company_record ''summaryProfile'' = Inr sp
        \<and> get_prop sp ''address'' = Inr (Str ''1 Main St, Springfield 00000, USA''))
   \<and> (\<exists>resp result profileResult sp a1v a2v cv zv cov address1 city zip country.
        fetched (canned ''{}'' (example_profile [(''summaryProfile'', example_summaryProfile)])) (profile_url ''ACME'' (profile_modules (startsWith_caret ''ACME''))) = Inr resp
      \<and> payload resp ''quoteSummary'' = Inr result
      \<and> get_prop result ''summaryProfile'' = Inr profileResult
      \<and> get_prop example_company_record ''summaryProfile'' = Inr sp
      \<and> get_prop profileResult ''address1'' = Inr a1v \<and> ToString (canned ''{}'' (example_profile [(''summaryProfile'', example_summaryProfile)])) a1v = Inr address1
      \<and> get_prop profileResult ''address2'' = Inr a2v
      \<and> get_prop profileResult ''city'' = Inr cv \<and> ToString (canned ''{}'' (example_profile [(''summaryProfile'', example_summaryProfile)])) cv = Inr city
      \<and> get_prop profileResult ''zip'' = Inr zv \<and> ToString (canned ''{}'' (example_profile [(''summaryProfile'', example_summaryProfile)])) zv = Inr zip
      \<and> get_prop profileResult ''country'' = Inr cov \<and> ToString (canned ''{}'' (example_profile [(''summaryProfile'', example_summaryProfile)])) cov = Inr country
      \<and> (\<not> truthy a2v \<longrightarrow>
            get_prop sp ''address'' =
              Inr (Str (address1 @ '', '' @ city @ '' '' @ zip @ '', '' @ country)))
      \<and> (truthy a2v \<longrightarrow> (\<exists>address2. ToString (canned ''{}'' (example_profile [(''summaryProfile'', example_summaryProfile)])) a2v = Inr address2
            \<and> get_prop sp ''address'' =
                Inr (Str (address1 @ '', '' @ address2 @ '', '' @ city @ '' '' @ zip @ '', '' @ country)))))"
proof -
  note h = example_company_resolves
  have n: "\<not> startsWith_caret ''ACME''" by (simp add: startsWith_caret_def)
  have u: "get_prop example_summaryProfile ''address2'' = Inr Undefined"
    by (simp add: example_summaryProfile_def)
  have a: "\<exists>sp. get_prop example_company_record ''summaryProfile'' = Inr sp
        \<and> get_prop sp ''address'' = Inr (Str ''1 Main St, Springfield 00000, USA'')"
    by (simp add: example_company_record_def)
  from h n u a resolveProfile_address [OF h n] show ?thesis by (intro conjI)
qed

end
